theory Spec2Isabelle
  imports Main "HOL-Library.AList" "HOL-Library.Char_ord" "HOL-Library.List_Lexorder"
begin

section \<open>Python values, exceptions and log records\<close>

text \<open>
  The development embeds \<^verbatim>\<open>src/molecule/config.py\<close> (class \<^verbatim>\<open>Config\<close>) and
  \<^verbatim>\<open>src/molecule/api.py\<close> (class \<^verbatim>\<open>UserListMap\<close>, functions \<^verbatim>\<open>drivers\<close> and
  \<^verbatim>\<open>verifiers\<close>). Python methods whose names start with an underscore keep their names
  without it (\<^verbatim>\<open>_combine\<close> is \<open>combine\<close>, and so on).

  A raised Python exception is a value of \<open>exn\<close>; each constructor carries the text that
  \<^verbatim>\<open>str(e)\<close> gives. \<open>SystemExit\<close> is the only one that is not a subclass of
  \<^verbatim>\<open>Exception\<close>, which is what the \<^verbatim>\<open>except\<close> clauses of \<^verbatim>\<open>api.py\<close> distinguish.
\<close>

datatype exn =
    SystemExit string
  | KeyError string
  | IndexError string
  | AttributeError string
  | TypeError string
  | OSError string
  | Exception string

fun str_exn :: "exn \<Rightarrow> string" where
  "str_exn (SystemExit m) = m"
| "str_exn (KeyError m) = m"
| "str_exn (IndexError m) = m"
| "str_exn (AttributeError m) = m"
| "str_exn (TypeError m) = m"
| "str_exn (OSError m) = m"
| "str_exn (Exception m) = m"

fun is_SystemExit :: "exn \<Rightarrow> bool" where
  "is_SystemExit (SystemExit m) = True"
| "is_SystemExit e = False"

definition is_Exception :: "exn \<Rightarrow> bool" where
  "is_Exception e = (\<not> is_SystemExit e)"

datatype log_record = LogError string | LogWarning string

text \<open>Python's truth value of an optional string: \<^verbatim>\<open>None\<close> and \<^verbatim>\<open>""\<close> are false.\<close>

fun truthy :: "string option \<Rightarrow> bool" where
  "truthy None = False"
| "truthy (Some s) = (s \<noteq> [])"

definition squote :: "string \<Rightarrow> string" where
  "squote s = [CHR 0x27] @ s @ [CHR 0x27]"

definition newline :: string where
  "newline = [CHR 0x0A]"

text \<open>
  Modelled from the spec: \<^verbatim>\<open>util.sysexit_with_message\<close> is not among the sources. The
  spec says that every fatal condition exits the process immediately with a user-facing
  message; the model is the raised \<open>SystemExit\<close> carrying that message.
\<close>

definition sysexit_with_message :: "string \<Rightarrow> exn" where
  "sysexit_with_message msg = SystemExit msg"

section \<open>Configuration documents and the merge\<close>

text \<open>
  A parsed configuration document: scalars, sequences and mappings. A mapping is an
  association list in insertion order, as a Python \<^verbatim>\<open>dict\<close> keeps it.
\<close>

datatype yaml =
    YNull
  | YBool bool
  | YInt int
  | YStr string
  | YSeq "yaml list"
  | YMap "(string \<times> yaml) list"

type_synonym mapping = "(string \<times> yaml) list"

text \<open>
  Modelled from the spec: \<^verbatim>\<open>util.merge_dicts\<close> is not among the sources. The spec
  gives its semantics: the later source is merged onto the accumulator, mapping keys merge
  recursively, sequence and scalar values are fully replaced by the later source, never
  concatenated or appended. The result starts as the accumulator \<open>a\<close>; each key of the
  later source \<open>b\<close> is stored into it, as the recursive merge when both sides hold a
  mapping under that key and as the value of \<open>b\<close> otherwise.
\<close>

fun merge_dicts :: "mapping \<Rightarrow> mapping \<Rightarrow> mapping" where
  "merge_dicts a b =
     fold (\<lambda>(k, v) result.
             AList.update k
               (case (map_of a k, v) of
                  (Some (YMap am), YMap vm) \<Rightarrow> YMap (merge_dicts am vm)
                | _ \<Rightarrow> v) result)
          b a"

declare merge_dicts.simps [simp del]

text \<open>\<^verbatim>\<open>posixpath.basename\<close> and \<^verbatim>\<open>posixpath.dirname\<close> of the Python library.\<close>

definition is_slash :: "char \<Rightarrow> bool" where
  "is_slash c = (c = CHR ''/'')"

definition basename :: "string \<Rightarrow> string" where
  "basename p = rev (takeWhile (\<lambda>c. \<not> is_slash c) (rev p))"

definition dirname :: "string \<Rightarrow> string" where
  "dirname p =
     (let head = rev (dropWhile (\<lambda>c. \<not> is_slash c) (rev p))
      in if head \<noteq> [] \<and> \<not> list_all is_slash head
         then rev (dropWhile is_slash (rev head))
         else head)"

text \<open>
  The part of a \<^verbatim>\<open>Config\<close> object that the merge and the driver resolution read.
  \<open>base_config\<close> is \<^verbatim>\<open>args.get("base_config", [])\<close>, \<open>env_file\<close> is the property
  \<^verbatim>\<open>env_file\<close> (\<^verbatim>\<open>None\<close> when no file is given), \<open>driver_name_arg\<close> is
  \<^verbatim>\<open>command_args.get("driver_name")\<close>. An unset scenario file is the empty string.
\<close>

record config =
  molecule_file :: string
  base_config :: "string list"
  env_file :: "string option"
  driver_name_arg :: "string option"

definition scenario_name :: "config \<Rightarrow> string" where
  "scenario_name c =
     (if molecule_file c = [] then ''default''
      else (let n = basename (dirname (molecule_file c))
            in if n = [] then ''default'' else n))"

definition get_defaults :: "config \<Rightarrow> mapping" where
  "get_defaults c =
   [(''dependency'', YMap
      [(''name'', YStr ''galaxy''),
       (''command'', YNull),
       (''enabled'', YBool True),
       (''options'', YMap []),
       (''env'', YMap [])]),
    (''driver'', YMap
      [(''name'', YStr ''default''),
       (''provider'', YMap [(''name'', YNull)]),
       (''options'', YMap [(''managed'', YBool True)]),
       (''ssh_connection_options'', YSeq []),
       (''safe_files'', YSeq [])]),
    (''platforms'', YSeq []),
    (''prerun'', YBool True),
    (''role_name_check'', YInt 0),
    (''provisioner'', YMap
      [(''name'', YStr ''ansible''),
       (''config_options'', YMap []),
       (''ansible_args'', YSeq []),
       (''connection_options'', YMap []),
       (''options'', YMap []),
       (''env'', YMap []),
       (''inventory'', YMap
          [(''hosts'', YMap []),
           (''host_vars'', YMap []),
           (''group_vars'', YMap []),
           (''links'', YMap [])]),
       (''children'', YMap []),
       (''playbooks'', YMap
          [(''cleanup'', YStr ''cleanup.yml''),
           (''create'', YStr ''create.yml''),
           (''converge'', YStr ''converge.yml''),
           (''destroy'', YStr ''destroy.yml''),
           (''prepare'', YStr ''prepare.yml''),
           (''side_effect'', YStr ''side_effect.yml''),
           (''verify'', YStr ''verify.yml'')]),
       (''log'', YBool True)]),
    (''scenario'', YMap
      [(''name'', YStr (scenario_name c)),
       (''check_sequence'', YSeq
          [YStr ''dependency'', YStr ''cleanup'', YStr ''destroy'', YStr ''create'',
           YStr ''prepare'', YStr ''converge'', YStr ''check'', YStr ''cleanup'',
           YStr ''destroy'']),
       (''cleanup_sequence'', YSeq [YStr ''cleanup'']),
       (''converge_sequence'', YSeq
          [YStr ''dependency'', YStr ''create'', YStr ''prepare'', YStr ''converge'']),
       (''create_sequence'', YSeq
          [YStr ''dependency'', YStr ''create'', YStr ''prepare'']),
       (''destroy_sequence'', YSeq
          [YStr ''dependency'', YStr ''cleanup'', YStr ''destroy'']),
       (''test_sequence'', YSeq
          [YStr ''dependency'', YStr ''cleanup'', YStr ''destroy'', YStr ''syntax'',
           YStr ''create'', YStr ''prepare'', YStr ''converge'', YStr ''idempotence'',
           YStr ''side_effect'', YStr ''verify'', YStr ''cleanup'', YStr ''destroy''])]),
    (''verifier'', YMap
      [(''name'', YStr ''ansible''),
       (''enabled'', YBool True),
       (''options'', YMap []),
       (''env'', YMap []),
       (''additional_files_or_dirs'', YSeq [])])]"

text \<open>
  What \<^verbatim>\<open>_combine\<close> reads from outside the object. \<open>path_exists\<close> is
  \<^verbatim>\<open>os.path.exists\<close>; \<open>read_text\<close> is \<^verbatim>\<open>open(p).read()\<close>, \<open>Inl\<close> the
  exception when \<^verbatim>\<open>open\<close> raises one; \<open>interpolator\<close> is
  \<^verbatim>\<open>Interpolator(TemplateWithDefaults, env).interpolate(stream, keep_string)\<close> of
  the module \<^verbatim>\<open>interpolation\<close>, \<open>Inl (place, string)\<close> when it raises
  \<^verbatim>\<open>InvalidInterpolation\<close> with these two attributes; \<open>safe_load\<close> and
  \<open>safe_load_file\<close> are the YAML loaders of \<^verbatim>\<open>util\<close>. None of them is among the
  sources, so they are parameters of the model.
\<close>

type_synonym env = "(string \<times> string) list"

record sys =
  path_exists :: "string \<Rightarrow> bool"
  read_text :: "string \<Rightarrow> exn + string"
  interpolator :: "env \<Rightarrow> string \<Rightarrow> string option \<Rightarrow> (string \<times> string) + string"
  safe_load :: "string \<Rightarrow> yaml"
  safe_load_file :: "string \<Rightarrow> env"

text \<open>\<^verbatim>\<open>set_env_from_file\<close>: the entries of the env file override those of \<open>env\<close>.\<close>

definition set_env_from_file :: "sys \<Rightarrow> env \<Rightarrow> string option \<Rightarrow> env" where
  "set_env_from_file w e f =
     (case f of
        None \<Rightarrow> e
      | Some p \<Rightarrow>
          if p \<noteq> [] \<and> path_exists w p
          then fold (\<lambda>(k, v) acc. AList.update k v acc) (safe_load_file w p) e
          else e)"

text \<open>Python's \<^verbatim>\<open>s in t\<close> on strings: \<open>s\<close> occurs in \<open>t\<close> as a contiguous part.\<close>

fun starts_with :: "string \<Rightarrow> string \<Rightarrow> bool" where
  "starts_with [] t = True"
| "starts_with (a # s) [] = False"
| "starts_with (a # s) (b # t) = (a = b \<and> starts_with s t)"

fun occurs_in :: "string \<Rightarrow> string \<Rightarrow> bool" where
  "occurs_in s [] = (s = [])"
| "occurs_in s (b # t) = (starts_with s (b # t) \<or> occurs_in s t)"

definition interpolation_msg :: "config \<Rightarrow> string \<Rightarrow> string \<Rightarrow> string" where
  "interpolation_msg c place string =
     ''parsing config file '' @ squote (molecule_file c) @ ''.'' @ newline @ newline
       @ place @ newline @ string"

text \<open>
  \<^verbatim>\<open>Config._interpolate\<close>. The \<^verbatim>\<open>return ""\<close> after the call of
  \<^verbatim>\<open>sysexit_with_message\<close> is not reached, since that call raises.
\<close>

definition interpolate :: "sys \<Rightarrow> config \<Rightarrow> string \<Rightarrow> env \<Rightarrow> string option \<Rightarrow> exn + string" where
  "interpolate w c stream e keep_string =
     (case interpolator w (set_env_from_file w e (env_file c)) stream keep_string of
        Inr s \<Rightarrow> Inr s
      | Inl (place, string) \<Rightarrow> Inl (sysexit_with_message (interpolation_msg c place string)))"

text \<open>
  One source of \<^verbatim>\<open>_combine\<close>: the file is read, interpolated and parsed
  (\<open>load_source\<close>), and the parsed document is merged onto the accumulator.
  \<^verbatim>\<open>merge_dicts\<close> iterates over \<^verbatim>\<open>b.items()\<close>, which raises
  \<^verbatim>\<open>AttributeError\<close> when the parsed document is not a mapping.
\<close>

definition load_source :: "sys \<Rightarrow> config \<Rightarrow> env \<Rightarrow> string option \<Rightarrow> string \<Rightarrow> exn + yaml" where
  "load_source w c e keep_string path =
     (case read_text w path of
        Inl x \<Rightarrow> Inl x
      | Inr s \<Rightarrow>
          (case interpolate w c s e keep_string of
             Inl x \<Rightarrow> Inl x
           | Inr t \<Rightarrow> Inr (safe_load w t)))"

definition merge_source :: "sys \<Rightarrow> config \<Rightarrow> env \<Rightarrow> string option \<Rightarrow> mapping \<Rightarrow> string \<Rightarrow> exn + mapping" where
  "merge_source w c e keep_string acc path =
     (case load_source w c e keep_string path of
        Inl x \<Rightarrow> Inl x
      | Inr (YMap b) \<Rightarrow> Inr (merge_dicts acc b)
      | Inr other \<Rightarrow> Inl (AttributeError ''items''))"

fun merge_sources :: "sys \<Rightarrow> config \<Rightarrow> env \<Rightarrow> string option \<Rightarrow> mapping \<Rightarrow> string list \<Rightarrow> exn + mapping" where
  "merge_sources w c e keep_string acc [] = Inr acc"
| "merge_sources w c e keep_string acc (p # ps) =
     (case merge_source w c e keep_string acc p of
        Inl x \<Rightarrow> Inl x
      | Inr acc' \<Rightarrow> merge_sources w c e keep_string acc' ps)"

text \<open>
  \<^verbatim>\<open>Config._combine\<close>: the defaults, then every existing base config in order, then
  the scenario file when one is set.
\<close>

definition combine :: "sys \<Rightarrow> config \<Rightarrow> env \<Rightarrow> string option \<Rightarrow> exn + mapping" where
  "combine w c e keep_string =
     (case merge_sources w c e keep_string (get_defaults c)
             (filter (path_exists w) (base_config c)) of
        Inl x \<Rightarrow> Inl x
      | Inr acc \<Rightarrow>
          if molecule_file c \<noteq> []
          then merge_source w c e keep_string acc (molecule_file c)
          else Inr acc)"

text \<open>The files that \<^verbatim>\<open>_combine\<close> reads, in the order in which it merges them.\<close>

definition sources :: "sys \<Rightarrow> config \<Rightarrow> string list" where
  "sources w c = filter (path_exists w) (base_config c)
      @ (if molecule_file c \<noteq> [] then [molecule_file c] else [])"

text \<open>Reading a nested key, as \<^verbatim>\<open>config["driver"]["options"]["managed"]\<close> does.\<close>

fun lookup_path :: "yaml \<Rightarrow> string list \<Rightarrow> yaml option" where
  "lookup_path v [] = Some v"
| "lookup_path (YMap m) (k # ks) =
     (case map_of m k of None \<Rightarrow> None | Some v \<Rightarrow> lookup_path v ks)"
| "lookup_path v (k # ks) = None"

text \<open>
  A parsed document keeps the path \<open>p\<close> when it holds a mapping wherever it has a value
  at a proper prefix of \<open>p\<close>: it may set the last key of the path to anything, but it
  does not put a sequence or a scalar where the path still has to go down.
\<close>

fun keeps_path :: "string list \<Rightarrow> yaml \<Rightarrow> bool" where
  "keeps_path [] v = True"
| "keeps_path (k # ks) (YMap b) = (\<forall>(k', v) \<in> set b. k' = k \<longrightarrow> keeps_path ks v)"
| "keeps_path (k # ks) v = False"

section \<open>The plugin collection\<close>

text \<open>
  Items of a plugin collection. \<open>pstr\<close> is \<^verbatim>\<open>str(item)\<close>; \<open>ident\<close> tells apart two
  objects that bear the same name.
\<close>

record plugin =
  pstr :: string
  ident :: nat

text \<open>
  The values held by the instance dictionary \<^verbatim>\<open>__dict__\<close> of a \<^verbatim>\<open>UserListMap\<close>, and
  the values its accessors return: a list of items, one item, or \<^verbatim>\<open>None\<close>.
\<close>

datatype pyval = ListVal "plugin list" | PluginVal plugin | NoneVal

text \<open>
  A \<^verbatim>\<open>UserListMap\<close> object is its instance dictionary. \<^verbatim>\<open>collections.UserList\<close>
  keeps the backing list in the attribute \<^verbatim>\<open>data\<close>, that is under the key
  \<^verbatim>\<open>"data"\<close> of the same dictionary in which \<^verbatim>\<open>append\<close> stores the items by name.
\<close>

type_synonym UserListMap = "(string \<times> pyval) list"

definition UserListMap_new :: UserListMap where
  "UserListMap_new = [(''data'', ListVal [])]"

datatype index = Idx int | Name string

text \<open>
  \<^verbatim>\<open>UserListMap.__getitem__\<close>. An integer goes to \<^verbatim>\<open>self.data[i]\<close>, where a negative
  index counts from the end; any other key is read from \<^verbatim>\<open>__dict__\<close>. Plugin objects
  are not subscriptable.
\<close>

fun getitem :: "UserListMap \<Rightarrow> index \<Rightarrow> exn + pyval" where
  "getitem u (Idx i) =
     (case map_of u ''data'' of
        Some (ListVal xs) \<Rightarrow>
          if 0 \<le> i \<and> i < int (length xs) then Inr (PluginVal (xs ! nat i))
          else if i < 0 \<and> - int (length xs) \<le> i
          then Inr (PluginVal (xs ! nat (int (length xs) + i)))
          else Inl (IndexError ''list index out of range'')
      | Some v \<Rightarrow> Inl (TypeError ''not subscriptable'')
      | None \<Rightarrow> Inl (AttributeError ''data''))"
| "getitem u (Name k) =
     (case map_of u k of None \<Rightarrow> Inl (KeyError k) | Some v \<Rightarrow> Inr v)"

text \<open>
  A method call \<^verbatim>\<open>u.m(...)\<close> first looks the name \<^verbatim>\<open>m\<close> up in the instance
  dictionary, and only then in the class. Since \<^verbatim>\<open>append\<close> stores every item in the
  instance dictionary under its name, an item named like a method shadows that method:
  the call then calls the item, and plugin objects are not callable, so it raises
  \<^verbatim>\<open>TypeError\<close>. This concerns \<^verbatim>\<open>get\<close>, \<^verbatim>\<open>append\<close> and \<^verbatim>\<open>sort\<close>, which
  are called by name; indexing and \<^verbatim>\<open>in\<close> go through the class and are not affected.
\<close>

definition shadowed :: "UserListMap \<Rightarrow> string \<Rightarrow> bool" where
  "shadowed u m = (map_of u m \<noteq> None)"

text \<open>
  \<^verbatim>\<open>UserListMap.get\<close>, called as \<^verbatim>\<open>u.get(key, default)\<close>: the body is
  \<^verbatim>\<open>self.__dict__.get(key, default)\<close>.
\<close>

definition get :: "UserListMap \<Rightarrow> string \<Rightarrow> pyval \<Rightarrow> exn + pyval" where
  "get u key dflt =
     (if shadowed u ''get'' then Inl (TypeError ''not callable'')
      else Inr (case map_of u key of None \<Rightarrow> dflt | Some v \<Rightarrow> v))"

text \<open>
  \<^verbatim>\<open>UserListMap.append\<close>, called as \<^verbatim>\<open>u.append(item)\<close>: first
  \<^verbatim>\<open>self.__dict__[str(item)] = item\<close>, then \<^verbatim>\<open>self.data.append(item)\<close>. The result
  is the exception raised, if any, and the object as the call leaves it. When the first
  statement has stored the item under the key \<^verbatim>\<open>"data"\<close>, the second one calls
  \<^verbatim>\<open>append\<close> on that item; plugin objects have no such method, so it raises
  \<^verbatim>\<open>AttributeError\<close>.
\<close>

definition ulm_append :: "UserListMap \<Rightarrow> plugin \<Rightarrow> exn option \<times> UserListMap" where
  "ulm_append u item =
     (if shadowed u ''append'' then (Some (TypeError ''not callable''), u)
      else
        (let u1 = AList.update (pstr item) (PluginVal item) u
         in case map_of u1 ''data'' of
              Some (ListVal xs) \<Rightarrow> (None, AList.update ''data'' (ListVal (xs @ [item])) u1)
            | _ \<Rightarrow> (Some (AttributeError ''append''), u1)))"

text \<open>
  The collection after \<^verbatim>\<open>u = UserListMap()\<close> and one \<^verbatim>\<open>u.append(x)\<close> for each
  item of a list, in order, whatever each call raises.
\<close>

definition appended :: "plugin list \<Rightarrow> UserListMap" where
  "appended items = fold (\<lambda>item u. snd (ulm_append u item)) items UserListMap_new"

text \<open>
  Modelled from the spec: the plugin classes are not among the sources; the spec says
  that the collection is sorted after population and that an item's derived name is its
  string representation, so \<^verbatim>\<open>self.data.sort()\<close> orders the items by \<open>pstr\<close>.
  Python's sort is stable, as \<open>sort_key\<close> is. The method is called as
  \<^verbatim>\<open>plugins.sort()\<close>.
\<close>

definition ulm_sort :: "UserListMap \<Rightarrow> exn + UserListMap" where
  "ulm_sort u =
     (if shadowed u ''sort'' then Inl (TypeError ''not callable'')
      else
        (case map_of u ''data'' of
           Some (ListVal xs) \<Rightarrow> Inr (AList.update ''data'' (ListVal (sort_key pstr xs)) u)
         | _ \<Rightarrow> Inl (AttributeError ''sort'')))"

text \<open>
  Modelled from the spec: \<^verbatim>\<open>name in collection\<close> asks whether an item of the backing
  list bears this name (the comparison of a plugin with a string is defined by the plugin
  classes, through the string representation).
\<close>

definition contains :: "UserListMap \<Rightarrow> string \<Rightarrow> exn + bool" where
  "contains u n =
     (case map_of u ''data'' of
        Some (ListVal xs) \<Rightarrow> Inr (n \<in> set (map pstr xs))
      | _ \<Rightarrow> Inl (TypeError ''not iterable''))"

section \<open>Driver name resolution\<close>

text \<open>
  The first block of \<^verbatim>\<open>Config._get_driver_name\<close>: the name from the state file, else
  the name from the command line, else the name in the merged configuration.
\<close>

definition winning_name :: "string option \<Rightarrow> string option \<Rightarrow> string \<Rightarrow> string" where
  "winning_name driver_from_state_file driver_from_cli driver_from_scenario =
     (if truthy driver_from_state_file then
        (case driver_from_state_file of Some s \<Rightarrow> s | None \<Rightarrow> [])
      else if truthy driver_from_cli then
        (case driver_from_cli of Some s \<Rightarrow> s | None \<Rightarrow> [])
      else driver_from_scenario)"

definition mismatch_msg :: "string \<Rightarrow> string \<Rightarrow> string" where
  "mismatch_msg driver_name driver_from_cli =
     ''Instance(s) were created with the '' @ squote driver_name @ '' driver, but the ''
       @ ''subcommand is using '' @ squote driver_from_cli @ '' driver.''"

definition unavailable_msg :: "string \<Rightarrow> string \<Rightarrow> string" where
  "unavailable_msg driver_name state_file =
     ''Driver '' @ squote driver_name @ '' from state-file '' @ squote state_file
       @ '' is not available.''"

definition drift_msg :: "string \<Rightarrow> string \<Rightarrow> string" where
  "drift_msg driver_name driver_from_scenario =
     ''Driver '' @ squote driver_name @ '' is currently in use but the scenario config ''
       @ ''has changed and now defines '' @ squote driver_from_scenario @ ''. ''
       @ ''To change drivers, run '' @ squote ''molecule destroy''
       @ '' for converged scenarios or '' @ squote ''molecule reset'' @ '' otherwise.''"

text \<open>
  \<^verbatim>\<open>Config._get_driver_name\<close>. Its inputs are \<^verbatim>\<open>self.state.driver\<close>,
  \<^verbatim>\<open>self.state.state_file\<close>, the configuration object (for
  \<^verbatim>\<open>command_args.get("driver_name")\<close>), \<^verbatim>\<open>self.config["driver"]["name"]\<close> and the
  collection that \<^verbatim>\<open>api.drivers()\<close> returns. The result is the exception raised or the
  name returned, together with the records logged.
\<close>

definition get_driver_name ::
  "string option \<Rightarrow> string \<Rightarrow> config \<Rightarrow> string \<Rightarrow> UserListMap \<Rightarrow> (exn + string) \<times> log_record list" where
  "get_driver_name driver_from_state_file state_file c driver_from_scenario api_drivers =
     (let driver_from_cli = driver_name_arg c;
          driver_name = winning_name driver_from_state_file driver_from_cli driver_from_scenario
      in if truthy driver_from_cli \<and> driver_from_cli \<noteq> Some driver_name then
           (Inl (sysexit_with_message
                   (mismatch_msg driver_name
                      (case driver_from_cli of Some s \<Rightarrow> s | None \<Rightarrow> []))), [])
         else
           (case (if truthy driver_from_state_file
                  then contains api_drivers driver_name
                  else Inr True) of
              Inl x \<Rightarrow> (Inl x, [])
            | Inr available \<Rightarrow>
                if \<not> available then
                  (Inl (sysexit_with_message (unavailable_msg driver_name state_file)), [])
                else if driver_from_scenario \<noteq> driver_name then
                  (Inr driver_name,
                   [LogWarning (drift_msg driver_name driver_from_scenario)])
                else (Inr driver_name, [])))"

section \<open>The plugin registries\<close>

text \<open>
  A registered plugin class: \<open>fname\<close> is \<^verbatim>\<open>pm.get_name(p)\<close>, \<open>call\<close> is the call
  \<^verbatim>\<open>p(config)\<close>, which returns the plugin object or raises. A plugin manager after
  \<^verbatim>\<open>pluggy.PluginManager(...)\<close>: \<open>entrypoint_failure\<close> is the exception that
  \<^verbatim>\<open>load_setuptools_entrypoints\<close> raises, if any, with the text that
  \<^verbatim>\<open>traceback.format_exc()\<close> renders for it; \<open>get_plugins\<close> are the registered classes.
  The memoisation by \<^verbatim>\<open>@cache\<close> does not change what a call computes and is left out.
\<close>

record 'c factory =
  fname :: string
  call :: "'c \<Rightarrow> exn + plugin"

record 'c plugin_manager =
  entrypoint_failure :: "(exn \<times> string) option"
  get_plugins :: "'c factory list"

definition load_failure_msg :: "string \<Rightarrow> exn \<Rightarrow> string" where
  "load_failure_msg n e = ''Failed to load '' @ n @ '' driver: '' @ str_exn e"

text \<open>
  The loop \<^verbatim>\<open>for p in pm.get_plugins(): try: plugins.append(p(config)) except ...\<close>.
  \<open>caught\<close> is the test of the \<^verbatim>\<open>except\<close> clause; an exception that it does not
  catch leaves the function.
\<close>

fun load_plugins ::
  "(exn \<Rightarrow> bool) \<Rightarrow> 'c \<Rightarrow> 'c factory list \<Rightarrow> UserListMap \<Rightarrow> log_record list
     \<Rightarrow> exn + UserListMap \<times> log_record list" where
  "load_plugins caught cfg [] u lg = Inr (u, lg)"
| "load_plugins caught cfg (p # ps) u lg =
     (case call p cfg of
        Inl e \<Rightarrow>
          if caught e
          then load_plugins caught cfg ps u (lg @ [LogError (load_failure_msg (fname p) e)])
          else Inl e
      | Inr item \<Rightarrow>
          (case ulm_append u item of
             (None, u') \<Rightarrow> load_plugins caught cfg ps u' lg
           | (Some e, u') \<Rightarrow>
               if caught e
               then load_plugins caught cfg ps u' (lg @ [LogError (load_failure_msg (fname p) e)])
               else Inl e))"

text \<open>
  The plugins that the registered classes construct, and the records logged for the
  classes whose call raises.
\<close>

definition constructed :: "'c \<Rightarrow> 'c factory list \<Rightarrow> plugin list" where
  "constructed cfg ps =
     List.map_filter (\<lambda>p. case call p cfg of Inr item \<Rightarrow> Some item | Inl e \<Rightarrow> None) ps"

definition failures :: "'c \<Rightarrow> 'c factory list \<Rightarrow> log_record list" where
  "failures cfg ps =
     List.map_filter
       (\<lambda>p. case call p cfg of
               Inl e \<Rightarrow> Some (LogError (load_failure_msg (fname p) e))
             | Inr item \<Rightarrow> None) ps"

text \<open>\<^verbatim>\<open>api.drivers\<close>: both \<^verbatim>\<open>except\<close> clauses name \<^verbatim>\<open>(Exception, SystemExit)\<close>.\<close>

definition drivers_caught :: "exn \<Rightarrow> bool" where
  "drivers_caught e = (is_Exception e \<or> is_SystemExit e)"

definition drivers :: "'c \<Rightarrow> 'c plugin_manager \<Rightarrow> exn + UserListMap \<times> log_record list" where
  "drivers cfg pm =
     (case (case entrypoint_failure pm of
              None \<Rightarrow> Inr []
            | Some (e, tb) \<Rightarrow>
                if drivers_caught e
                then Inr [LogError (''Failed to load driver entry point '' @ tb)]
                else Inl e) of
        Inl e \<Rightarrow> Inl e
      | Inr lg \<Rightarrow>
          (case load_plugins drivers_caught cfg (get_plugins pm) UserListMap_new lg of
             Inl e \<Rightarrow> Inl e
           | Inr (u, lg') \<Rightarrow>
               (case ulm_sort u of Inl e \<Rightarrow> Inl e | Inr u' \<Rightarrow> Inr (u', lg'))))"

text \<open>\<^verbatim>\<open>api.verifiers\<close>: both \<^verbatim>\<open>except\<close> clauses name \<^verbatim>\<open>Exception\<close> only.\<close>

definition verifiers_caught :: "exn \<Rightarrow> bool" where
  "verifiers_caught e = is_Exception e"

definition verifiers :: "'c \<Rightarrow> 'c plugin_manager \<Rightarrow> exn + UserListMap \<times> log_record list" where
  "verifiers cfg pm =
     (case (case entrypoint_failure pm of
              None \<Rightarrow> Inr []
            | Some (e, tb) \<Rightarrow>
                if verifiers_caught e
                then Inr [LogError (''Failed to load verifier entry point '' @ tb)]
                else Inl e) of
        Inl e \<Rightarrow> Inl e
      | Inr lg \<Rightarrow>
          (case load_plugins verifiers_caught cfg (get_plugins pm) UserListMap_new lg of
             Inl e \<Rightarrow> Inl e
           | Inr (u, lg') \<Rightarrow>
               (case ulm_sort u of Inl e \<Rightarrow> Inl e | Inr u' \<Rightarrow> Inr (u', lg'))))"

section \<open>The state property\<close>

text \<open>
  Modelled from the spec: the module \<^verbatim>\<open>state\<close> is not among the sources. The spec
  describes \<^verbatim>\<open>State\<close> as a small record persisted per scenario (driver name, created
  and converged flags, last-known modification time of the scenario file), read back
  from disk when an object is constructed, mutated by \<^verbatim>\<open>change_state(key, value)\<close> and
  persisted on each mutation. The modification time is a number that the code only
  compares for equality, so its type \<open>'t\<close> is left open.
\<close>

record 't state_data =
  driver :: "string option"
  created :: bool
  converged :: bool
  molecule_yml_date_modified :: "'t option"

definition default_state :: "'t state_data" where
  "default_state =
     \<lparr>driver = None, created = False, converged = False, molecule_yml_date_modified = None\<rparr>"

text \<open>
  The world of the \<^verbatim>\<open>state\<close> property: the record in the state file (\<open>None\<close> before
  the first write), the \<^verbatim>\<open>State\<close> objects constructed so far (an object is its
  position in the list), the records logged, and the modification time of each path that
  \<^verbatim>\<open>os.path.isfile\<close> accepts.
\<close>

record 't world =
  state_file_data :: "'t state_data option"
  objects :: "'t state_data list"
  logged :: "log_record list"
  getmtime :: "string \<Rightarrow> 't option"

text \<open>
  Modelled from the spec: what a new \<^verbatim>\<open>State\<close> object reads, the persisted record
  or, before the first write, the defaults.
\<close>

definition stored_state :: "'t world \<Rightarrow> 't state_data" where
  "stored_state w = (case state_file_data w of None \<Rightarrow> default_state | Some d \<Rightarrow> d)"

text \<open>
  Modelled from the spec: the constructor \<^verbatim>\<open>State(config)\<close> makes a new object from
  what the state file holds.
\<close>

definition State_new :: "'t world \<Rightarrow> nat \<times> 't world" where
  "State_new w = (length (objects w), w\<lparr>objects := objects w @ [stored_state w]\<rparr>)"

text \<open>
  Modelled from the spec: \<^verbatim>\<open>change_state("molecule_yml_date_modified", t)\<close> sets the
  field of the object and persists the object to the state file.
\<close>

definition change_state_date_modified :: "nat \<Rightarrow> 't \<Rightarrow> 't world \<Rightarrow> 't world" where
  "change_state_date_modified obj t w =
     (if obj < length (objects w)
      then (let d = (objects w ! obj)\<lparr>molecule_yml_date_modified := Some t\<rparr>
            in w\<lparr>objects := (objects w)[obj := d], state_file_data := Some d\<rparr>)
      else w)"

definition stale_msg :: "string \<Rightarrow> string" where
  "stale_msg path =
     ''The scenario config file ('' @ squote path
       @ '') has been modified since the scenario was created. ''
       @ ''If recent changes are important, reset the scenario with ''
       @ squote ''molecule destroy'' @ '' to clean up created items or ''
       @ squote ''molecule reset'' @ '' to clear current configuration.''"

text \<open>
  \<^verbatim>\<open>Config.state\<close>, the body that \<^verbatim>\<open>cached_property\<close> runs on the first access.
  The result is the object returned and the world afterwards.
\<close>

definition state_property :: "config \<Rightarrow> 't world \<Rightarrow> nat \<times> 't world" where
  "state_property c w =
     (let (myState, w1) = State_new w;
          w2 = (if molecule_file c \<noteq> [] then
                  (case getmtime w1 (molecule_file c) of
                     None \<Rightarrow> w1
                   | Some modTime \<Rightarrow>
                       (case molecule_yml_date_modified (objects w1 ! myState) of
                          None \<Rightarrow> change_state_date_modified myState modTime w1
                        | Some t \<Rightarrow>
                            if t \<noteq> modTime
                            then w1\<lparr>logged := logged w1 @ [LogWarning (stale_msg (molecule_file c))]\<rparr>
                            else w1))
                else w1)
      in State_new w2)"

section \<open>Concrete inputs\<close>

text \<open>A world without any file, and a configuration with no scenario file set.\<close>

definition no_files :: sys where
  "no_files = \<lparr>path_exists = (\<lambda>p. False), read_text = (\<lambda>p. Inl (OSError p)),
      interpolator = (\<lambda>e s k. Inr s), safe_load = (\<lambda>s. YNull), safe_load_file = (\<lambda>p. [])\<rparr>"

definition bare_config :: config where
  "bare_config = \<lparr>molecule_file = [], base_config = [''missing.yml''], env_file = None,
      driver_name_arg = None\<rparr>"

text \<open>A configuration of the scenario \<open>default\<close> with a given command-line driver name.\<close>

definition cli_config :: "string option \<Rightarrow> config" where
  "cli_config n = \<lparr>molecule_file = ''molecule/default/molecule.yml'', base_config = [],
      env_file = None, driver_name_arg = n\<rparr>"

text \<open>The driver collection holding the plugins \<open>default\<close> and \<open>docker\<close>.\<close>

definition docker_registry :: UserListMap where
  "docker_registry =
     [(''data'', ListVal [\<lparr>pstr = ''default'', ident = 0\<rparr>, \<lparr>pstr = ''docker'', ident = 1\<rparr>]),
      (''default'', PluginVal \<lparr>pstr = ''default'', ident = 0\<rparr>),
      (''docker'', PluginVal \<lparr>pstr = ''docker'', ident = 1\<rparr>)]"

text \<open>A scenario file whose text the interpolator rejects.\<close>

definition broken_text :: string where
  "broken_text = ''driver: ${''"

definition strict_sys :: sys where
  "strict_sys = \<lparr>path_exists = (\<lambda>p. True), read_text = (\<lambda>p. Inr broken_text),
      interpolator = (\<lambda>e s k. if s = broken_text then Inl (''line 1, col 9'', s) else Inr s),
      safe_load = (\<lambda>s. YMap []), safe_load_file = (\<lambda>p. [])\<rparr>"

text \<open>
  A world with a base config and two scenario files; the text of a file is its path, and
  the loader maps it to the document below.
\<close>

definition base_doc :: mapping where
  "base_doc = [(''prerun'', YBool False),
               (''provisioner'', YMap [(''log'', YBool False)])]"

definition scenario_doc :: mapping where
  "scenario_doc = [(''driver'', YMap [(''name'', YStr ''docker'')]),
                   (''platforms'', YSeq [YMap [(''name'', YStr ''instance'')]]),
                   (''custom'', YStr ''x'')]"

definition flat_doc :: mapping where
  "flat_doc = [(''driver'', YStr ''docker'')]"

definition extra_doc :: mapping where
  "extra_doc = [(''platforms'', YSeq [YMap [(''name'', YStr ''x'')]]),
                (''prerun'', YBool True)]"

definition demo_sys :: sys where
  "demo_sys = \<lparr>path_exists = (\<lambda>p. p \<noteq> ''missing.yml''), read_text = (\<lambda>p. Inr p),
      interpolator = (\<lambda>e s k. Inr s),
      safe_load = (\<lambda>s. if s = ''base.yml'' then YMap base_doc
                        else if s = ''extra.yml'' then YMap extra_doc
                        else if s = ''molecule/default/molecule.yml'' then YMap scenario_doc
                        else YMap flat_doc),
      safe_load_file = (\<lambda>p. [])\<rparr>"

definition demo_config :: config where
  "demo_config = \<lparr>molecule_file = ''molecule/default/molecule.yml'',
      base_config = [''base.yml'', ''missing.yml''], env_file = None, driver_name_arg = None\<rparr>"

text \<open>Two base configs and no scenario file.\<close>

definition two_base_config :: config where
  "two_base_config = \<lparr>molecule_file = [], base_config = [''base.yml'', ''extra.yml''],
      env_file = None, driver_name_arg = None\<rparr>"

definition flat_config :: config where
  "flat_config = \<lparr>molecule_file = ''molecule/flat/molecule.yml'',
      base_config = [], env_file = None, driver_name_arg = None\<rparr>"

text \<open>Plugins and plugin classes.\<close>

definition default_plugin :: plugin where
  "default_plugin = \<lparr>pstr = ''default'', ident = 0\<rparr>"

definition docker_plugin :: plugin where
  "docker_plugin = \<lparr>pstr = ''docker'', ident = 1\<rparr>"

definition data_plugin :: plugin where
  "data_plugin = \<lparr>pstr = ''data'', ident = 7\<rparr>"

definition get_plugin :: plugin where
  "get_plugin = \<lparr>pstr = ''get'', ident = 8\<rparr>"

definition append_plugin :: plugin where
  "append_plugin = \<lparr>pstr = ''append'', ident = 9\<rparr>"

definition good_factory :: "unit factory" where
  "good_factory = \<lparr>fname = ''ansible'', call = (\<lambda>c. Inr \<lparr>pstr = ''ansible'', ident = 0\<rparr>)\<rparr>"

definition raising_factory :: "unit factory" where
  "raising_factory = \<lparr>fname = ''broken'', call = (\<lambda>c. Inl (Exception ''boom''))\<rparr>"

definition data_factory :: "unit factory" where
  "data_factory = \<lparr>fname = ''data'', call = (\<lambda>c. Inr data_plugin)\<rparr>"

definition sort_factory :: "unit factory" where
  "sort_factory = \<lparr>fname = ''sort'', call = (\<lambda>c. Inr \<lparr>pstr = ''sort'', ident = 10\<rparr>)\<rparr>"

definition exiting_factory :: "unit factory" where
  "exiting_factory = \<lparr>fname = ''testinfra'', call = (\<lambda>c. Inl (SystemExit ''1''))\<rparr>"

text \<open>
  Two worlds for the \<^verbatim>\<open>state\<close> property: one before the first run, one whose state
  file records an older modification time of the scenario file.
\<close>

definition first_run_world :: "nat world" where
  "first_run_world = \<lparr>state_file_data = None, objects = [], logged = [],
      getmtime = (\<lambda>p. if p = ''molecule/default/molecule.yml'' then Some 200 else None)\<rparr>"

definition stale_world :: "nat world" where
  "stale_world = \<lparr>state_file_data =
        Some \<lparr>driver = Some ''docker'', created = True, converged = False,
              molecule_yml_date_modified = Some 100\<rparr>,
      objects = [], logged = [],
      getmtime = (\<lambda>p. if p = ''molecule/default/molecule.yml'' then Some 200 else None)\<rparr>"

section \<open>Properties\<close>

subsection \<open>Facts about the concrete inputs\<close>

lemma cli_config_arg [simp]: "driver_name_arg (cli_config n) = n"
  by (simp add: cli_config_def)

lemma docker_registry_contains [simp]:
  "contains docker_registry n = Inr (n = ''default'' \<or> n = ''docker'')"
  by (auto simp add: contains_def docker_registry_def)

subsection \<open>Driver name resolution\<close>

text \<open>
  C1, amended. The name is chosen by strict precedence: the name recorded in the state
  store, else the name given on the command line, else the name in the merged scenario
  configuration. The chosen name is returned, except that a name recorded in the state
  store is not returned when a different command-line name is supplied or when the
  collection of drivers does not hold it: resolution then aborts with \<open>SystemExit\<close>.
  Names from the other two sources are always returned.
\<close>

theorem driver_name_precedence:
  "(st = Some s \<and> s \<noteq> [] \<and> (truthy (driver_name_arg c) \<longrightarrow> driver_name_arg c = Some s)
      \<and> contains reg s = Inr True
      \<longrightarrow> fst (get_driver_name st sf c scen reg) = Inr s)
   \<and> (st = Some s \<and> s \<noteq> [] \<and> driver_name_arg c = Some n \<and> n \<noteq> [] \<and> n \<noteq> s
      \<longrightarrow> fst (get_driver_name st sf c scen reg) = Inl (SystemExit (mismatch_msg s n)))
   \<and> (st = Some s \<and> s \<noteq> [] \<and> (truthy (driver_name_arg c) \<longrightarrow> driver_name_arg c = Some s)
      \<and> contains reg s = Inr False
      \<longrightarrow> fst (get_driver_name st sf c scen reg) = Inl (SystemExit (unavailable_msg s sf)))
   \<and> (\<not> truthy st \<and> driver_name_arg c = Some n \<and> n \<noteq> []
      \<longrightarrow> fst (get_driver_name st sf c scen reg) = Inr n)
   \<and> (\<not> truthy st \<and> \<not> truthy (driver_name_arg c)
      \<longrightarrow> fst (get_driver_name st sf c scen reg) = Inr scen)"
proof -
  have returned: "fst (get_driver_name st sf c scen reg) = Inr s"
    if "st = Some s" "s \<noteq> []" "truthy (driver_name_arg c) \<longrightarrow> driver_name_arg c = Some s"
      "contains reg s = Inr True"
    using that by (auto simp add: get_driver_name_def Let_def winning_name_def)
  have mismatch: "fst (get_driver_name st sf c scen reg) = Inl (SystemExit (mismatch_msg s n))"
    if "st = Some s" "s \<noteq> []" "driver_name_arg c = Some n" "n \<noteq> []" "n \<noteq> s"
    using that
    by (simp add: get_driver_name_def Let_def winning_name_def sysexit_with_message_def)
  have unavailable:
    "fst (get_driver_name st sf c scen reg) = Inl (SystemExit (unavailable_msg s sf))"
    if "st = Some s" "s \<noteq> []" "truthy (driver_name_arg c) \<longrightarrow> driver_name_arg c = Some s"
      "contains reg s = Inr False"
    using that
    by (auto simp add: get_driver_name_def Let_def winning_name_def sysexit_with_message_def)
  have cli: "fst (get_driver_name st sf c scen reg) = Inr n"
    if "\<not> truthy st" "driver_name_arg c = Some n" "n \<noteq> []"
    using that by (simp add: get_driver_name_def Let_def winning_name_def)
  have scenario: "fst (get_driver_name st sf c scen reg) = Inr scen"
    if "\<not> truthy st" "\<not> truthy (driver_name_arg c)"
    using that by (simp add: get_driver_name_def Let_def winning_name_def)
  show ?thesis
    using returned mismatch unavailable cli scenario by blast
qed

text \<open>The five cases of the theorem at concrete inputs.\<close>

theorem driver_name_precedence_witness:
  "fst (get_driver_name (Some ''docker'') ''state.yml'' (cli_config None) ''default''
          docker_registry) = Inr ''docker''
   \<and> fst (get_driver_name (Some ''docker'') ''state.yml'' (cli_config (Some ''podman''))
          ''default'' docker_registry) = Inl (SystemExit (mismatch_msg ''docker'' ''podman''))
   \<and> fst (get_driver_name (Some ''vagrant'') ''state.yml'' (cli_config None) ''default''
          docker_registry) = Inl (SystemExit (unavailable_msg ''vagrant'' ''state.yml''))
   \<and> fst (get_driver_name None ''state.yml'' (cli_config (Some ''podman'')) ''default''
          docker_registry) = Inr ''podman''
   \<and> fst (get_driver_name None ''state.yml'' (cli_config None) ''default''
          docker_registry) = Inr ''default''"
  using
    driver_name_precedence [of "Some ''docker''" "''docker''" "cli_config None"
      docker_registry "''state.yml''" "''default''" "''podman''"]
    driver_name_precedence [of "Some ''docker''" "''docker''" "cli_config (Some ''podman'')"
      docker_registry "''state.yml''" "''default''" "''podman''"]
    driver_name_precedence [of "Some ''vagrant''" "''vagrant''" "cli_config None"
      docker_registry "''state.yml''" "''default''" "''podman''"]
    driver_name_precedence [of None "''x''" "cli_config (Some ''podman'')"
      docker_registry "''state.yml''" "''default''" "''podman''"]
    driver_name_precedence [of None "''x''" "cli_config None"
      docker_registry "''state.yml''" "''default''" "''podman''"]
  by simp

text \<open>
  As written, the statement promises that a name recorded in the state store is returned.
  With \<open>docker\<close> recorded and \<open>podman\<close> requested on the command line, no name is returned.
\<close>

theorem state_name_not_always_returned:
  "truthy (Some ''docker'')
   \<and> fst (get_driver_name (Some ''docker'') ''state.yml'' (cli_config (Some ''podman''))
          ''default'' docker_registry) \<noteq> Inr ''docker''"
  by (simp add: get_driver_name_def Let_def winning_name_def)

text \<open>
  C4. When a command-line driver name is supplied and differs from the winning name,
  resolution aborts with \<open>SystemExit\<close>; the message names the winning driver and the
  requested one, no name is returned and nothing else is logged.
\<close>

theorem cli_mismatch_aborts:
  assumes "driver_name_arg c = Some n" and "n \<noteq> []"
    and "n \<noteq> winning_name st (driver_name_arg c) scen"
  shows "get_driver_name st sf c scen reg =
           (Inl (SystemExit (mismatch_msg (winning_name st (driver_name_arg c) scen) n)), [])
     \<and> mismatch_msg (winning_name st (driver_name_arg c) scen) n =
         ''Instance(s) were created with the ''
           @ squote (winning_name st (driver_name_arg c) scen)
           @ '' driver, but the subcommand is using '' @ squote n @ '' driver.''"
  using assms
  by (simp add: get_driver_name_def Let_def sysexit_with_message_def mismatch_msg_def)

text \<open>The example of the specification: the state records \<open>docker\<close>, the command line asks for \<open>podman\<close>.\<close>

theorem cli_mismatch_aborts_witness:
  "get_driver_name (Some ''docker'') ''state.yml'' (cli_config (Some ''podman'')) ''default''
     docker_registry = (Inl (SystemExit (mismatch_msg ''docker'' ''podman'')), [])"
proof -
  have a: "driver_name_arg (cli_config (Some ''podman'')) = Some ''podman''" by simp
  have b: "''podman'' \<noteq> []" by simp
  have c: "''podman'' \<noteq>
      winning_name (Some ''docker'') (driver_name_arg (cli_config (Some ''podman''))) ''default''"
    by (simp add: winning_name_def)
  show ?thesis
    using cli_mismatch_aborts [OF a b c, of "''state.yml''" docker_registry]
    by (simp add: winning_name_def)
qed

text \<open>
  C5, amended. When the winning name differs from the name in the scenario file, the
  warning that tells the user to destroy or reset is logged if and only if resolution
  returns a name, whether or not the difference comes from the command line; when
  resolution aborts, nothing is logged. In particular, with \<open>docker\<close> recorded in the state
  store and held by the collection of drivers, \<open>default\<close> in the scenario file and no other
  name on the command line, resolution returns \<open>docker\<close> and logs the warning.
\<close>

theorem drift_warning_iff_returns:
  assumes "winning_name st (driver_name_arg c) scen \<noteq> scen"
  shows "((\<exists>n. fst (get_driver_name st sf c scen reg) = Inr n) \<longleftrightarrow>
            snd (get_driver_name st sf c scen reg)
              = [LogWarning (drift_msg (winning_name st (driver_name_arg c) scen) scen)])
     \<and> ((\<exists>e. fst (get_driver_name st sf c scen reg) = Inl e) \<longleftrightarrow>
            snd (get_driver_name st sf c scen reg) = [])
     \<and> (st = Some ''docker'' \<and> scen = ''default'' \<and> contains reg ''docker'' = Inr True
          \<and> (truthy (driver_name_arg c) \<longrightarrow> driver_name_arg c = Some ''docker'')
        \<longrightarrow> get_driver_name st sf c scen reg
              = (Inr ''docker'', [LogWarning (drift_msg ''docker'' ''default'')]))"
  using assms
  by (auto simp add: get_driver_name_def Let_def winning_name_def sysexit_with_message_def
      split: sum.splits if_splits)

text \<open>The example of the specification: \<open>docker\<close> in the state store, \<open>default\<close> in the scenario file.\<close>

theorem drift_warning_iff_returns_witness:
  "get_driver_name (Some ''docker'') ''state.yml'' (cli_config None) ''default'' docker_registry
     = (Inr ''docker'', [LogWarning (drift_msg ''docker'' ''default'')])"
proof -
  have a: "winning_name (Some ''docker'') (driver_name_arg (cli_config None)) ''default''
      \<noteq> ''default''"
    by (simp add: winning_name_def)
  show ?thesis
    using drift_warning_iff_returns [OF a, of "''state.yml''" docker_registry]
    by simp
qed

text \<open>
  As written, the statement excludes the warning when the difference is an explicit
  command-line override. With nothing in the state store, \<open>podman\<close> on the command line and
  \<open>default\<close> in the scenario file, \<open>podman\<close> wins by the override and the warning is logged.
\<close>

theorem cli_override_still_warns:
  "winning_name None (Some ''podman'') ''default'' \<noteq> ''default''
   \<and> truthy (driver_name_arg (cli_config (Some ''podman'')))
   \<and> get_driver_name None ''state.yml'' (cli_config (Some ''podman'')) ''default''
       docker_registry = (Inr ''podman'', [LogWarning (drift_msg ''podman'' ''default'')])"
  by (simp add: get_driver_name_def Let_def winning_name_def)

subsection \<open>The merge of the configuration sources\<close>

text \<open>
  C3. With no scenario file set and no existing base config, \<open>combine\<close> returns the
  hardcoded defaults; their scenario name is \<open>default\<close>, and they hold the listed values.
\<close>

theorem combine_defaults_only:
  assumes "molecule_file c = []" and "\<forall>p \<in> set (base_config c). \<not> path_exists w p"
  shows "combine w c e keep_string = Inr (get_defaults c)
    \<and> lookup_path (YMap (get_defaults c)) [''scenario'', ''name''] = Some (YStr ''default'')
    \<and> lookup_path (YMap (get_defaults c)) [''dependency'', ''name''] = Some (YStr ''galaxy'')
    \<and> lookup_path (YMap (get_defaults c)) [''driver'', ''name''] = Some (YStr ''default'')
    \<and> lookup_path (YMap (get_defaults c)) [''driver'', ''options'', ''managed'']
        = Some (YBool True)
    \<and> lookup_path (YMap (get_defaults c)) [''platforms''] = Some (YSeq [])
    \<and> lookup_path (YMap (get_defaults c)) [''prerun''] = Some (YBool True)
    \<and> lookup_path (YMap (get_defaults c)) [''role_name_check''] = Some (YInt 0)
    \<and> lookup_path (YMap (get_defaults c)) [''provisioner'', ''name''] = Some (YStr ''ansible'')
    \<and> lookup_path (YMap (get_defaults c)) [''verifier'', ''name''] = Some (YStr ''ansible'')
    \<and> lookup_path (YMap (get_defaults c)) [''verifier'', ''enabled''] = Some (YBool True)
    \<and> lookup_path (YMap (get_defaults c)) [''scenario'', ''test_sequence''] =
        Some (YSeq [YStr ''dependency'', YStr ''cleanup'', YStr ''destroy'', YStr ''syntax'',
           YStr ''create'', YStr ''prepare'', YStr ''converge'', YStr ''idempotence'',
           YStr ''side_effect'', YStr ''verify'', YStr ''cleanup'', YStr ''destroy''])"
proof -
  have f: "filter (path_exists w) (base_config c) = []"
    using assms(2) by (simp add: filter_empty_conv)
  have 1: "combine w c e keep_string = Inr (get_defaults c)"
    by (simp add: combine_def f assms(1))
  have 2: "scenario_name c = ''default''"
    by (simp add: scenario_name_def assms(1))
  show ?thesis
    unfolding 1 by (simp add: get_defaults_def 2)
qed

text \<open>A configuration whose only base config does not exist.\<close>

theorem combine_defaults_only_witness:
  "combine no_files bare_config [] None = Inr (get_defaults bare_config)
   \<and> lookup_path (YMap (get_defaults bare_config)) [''scenario'', ''name'']
       = Some (YStr ''default'')"
proof -
  have a: "molecule_file bare_config = []" by (simp add: bare_config_def)
  have b: "\<forall>p \<in> set (base_config bare_config). \<not> path_exists no_files p"
    by (simp add: bare_config_def no_files_def)
  show ?thesis using combine_defaults_only [OF a b, of "[]" None] by simp
qed

subsection \<open>Lookups in a merged mapping\<close>

lemma map_of_rev_distinct: "distinct (map fst xs) \<Longrightarrow> map_of (rev xs) = map_of xs"
proof (induction xs)
  case Nil
  then show ?case by simp
next
  case (Cons x xs)
  then have "map_of xs (fst x) = None"
    by (simp add: map_of_eq_None_iff)
  with Cons show ?case
    by (cases x) (auto simp add: fun_eq_iff map_add_def split: option.splits)
qed

lemma map_of_fold_update:
  "map_of (fold (\<lambda>(k, v) result. AList.update k (f k v) result) b r) k =
     (case map_of (rev b) k of None \<Rightarrow> map_of r k | Some v \<Rightarrow> Some (f k v))"
proof (induction b arbitrary: r)
  case Nil
  then show ?case by simp
next
  case (Cons x xs)
  obtain k0 v0 where x: "x = (k0, v0)" by (cases x)
  show ?case
    by (simp add: x Cons.IH AList.update_conv' map_add_def split: option.splits)
qed

text \<open>The entry of the later source that counts for a key is its last one.\<close>

lemma map_of_merge_dicts:
  "map_of (merge_dicts a b) k =
     (case map_of (rev b) k of
        None \<Rightarrow> map_of a k
      | Some v \<Rightarrow>
          Some (case (map_of a k, v) of
                  (Some (YMap am), YMap vm) \<Rightarrow> YMap (merge_dicts am vm)
                | _ \<Rightarrow> v))"
  unfolding merge_dicts.simps [of a b]
  by (rule map_of_fold_update)

lemma map_of_rev_None_iff: "map_of (rev b) k = None \<longleftrightarrow> map_of b k = None"
  by (simp add: map_of_eq_None_iff)

lemma merge_dicts_None_iff:
  "map_of (merge_dicts a b) k = None \<longleftrightarrow> map_of a k = None \<and> map_of b k = None"
proof (cases "map_of (rev b) k")
  case None
  then have "map_of b k = None" by (simp add: map_of_rev_None_iff)
  with None show ?thesis by (simp add: map_of_merge_dicts)
next
  case (Some v)
  then have "map_of b k \<noteq> None" using map_of_rev_None_iff [of b k] by simp
  with Some show ?thesis by (simp add: map_of_merge_dicts)
qed

lemma keys_merge_dicts: "fst ` set (merge_dicts a b) = fst ` set a \<union> fst ` set b"
proof -
  have "k \<notin> fst ` set (merge_dicts a b) \<longleftrightarrow> k \<notin> fst ` set a \<union> fst ` set b" for k
    using merge_dicts_None_iff [of a b k] by (simp add: map_of_eq_None_iff)
  then show ?thesis by blast
qed

lemma lookup_path_merge_dicts:
  "lookup_path (YMap a) p \<noteq> None \<Longrightarrow> keeps_path p (YMap b)
     \<Longrightarrow> lookup_path (YMap (merge_dicts a b)) p \<noteq> None"
proof (induction p arbitrary: a b)
  case Nil
  then show ?case by simp
next
  case (Cons k ks)
  from Cons.prems(1) obtain av where av: "map_of a k = Some av" and l: "lookup_path av ks \<noteq> None"
    by (auto split: option.splits)
  show ?case
  proof (cases "map_of (rev b) k")
    case None
    then show ?thesis using av l by (simp add: map_of_merge_dicts)
  next
    case (Some v)
    then have "(k, v) \<in> set b" by (auto dest: map_of_SomeD)
    with Cons.prems(2) have kv: "keeps_path ks v" by auto
    show ?thesis
    proof (cases ks)
      case Nil
      then show ?thesis using Some av by (simp add: map_of_merge_dicts)
    next
      case (Cons k' ks')
      with kv obtain vm where vm: "v = YMap vm" by (cases v) auto
      from Cons l obtain am where am: "av = YMap am" by (cases av) auto
      have "lookup_path (YMap (merge_dicts am vm)) ks \<noteq> None"
        using Cons.IH [of am vm] l kv am vm by simp
      then show ?thesis using Some av am vm by (simp add: map_of_merge_dicts)
    qed
  qed
qed

subsection \<open>The sources of a merge, one after the other\<close>

lemma merge_sources_append:
  "merge_sources w c e k acc (ps @ qs) =
     (case merge_sources w c e k acc ps of Inl x \<Rightarrow> Inl x
      | Inr acc' \<Rightarrow> merge_sources w c e k acc' qs)"
  by (induction ps arbitrary: acc) (auto split: sum.splits)

lemma combine_sources:
  "combine w c e k = merge_sources w c e k (get_defaults c) (sources w c)"
  by (auto simp add: combine_def sources_def merge_sources_append split: sum.splits)

lemma merge_sources_failing:
  "p \<in> set ps \<Longrightarrow> load_source w c e k p = Inl x \<Longrightarrow> \<exists>y. merge_sources w c e k acc ps = Inl y"
  by (induction ps arbitrary: acc) (auto simp add: merge_source_def split: sum.splits)

lemma merge_sources_keys:
  "merge_sources w c e ks acc0 ps = Inr acc \<Longrightarrow> k \<in> fst ` set acc \<Longrightarrow>
     k \<in> fst ` set acc0
     \<or> (\<exists>p \<in> set ps. \<exists>b. load_source w c e ks p = Inr (YMap b) \<and> k \<in> fst ` set b)"
proof (induction ps arbitrary: acc0)
  case Nil
  then show ?case by simp
next
  case (Cons p ps)
  from Cons.prems(1) obtain b where b: "load_source w c e ks p = Inr (YMap b)"
    and r: "merge_sources w c e ks (merge_dicts acc0 b) ps = Inr acc"
    by (auto simp add: merge_source_def split: sum.splits yaml.splits)
  from Cons.IH [OF r Cons.prems(2)] b show ?case
    by (auto simp add: keys_merge_dicts)
qed

lemma merge_sources_keeps_keys:
  "merge_sources w c e ks acc0 ps = Inr acc \<Longrightarrow> fst ` set acc0 \<subseteq> fst ` set acc"
proof (induction ps arbitrary: acc0)
  case Nil
  then show ?case by simp
next
  case (Cons p ps)
  from Cons.prems(1) obtain b where b: "load_source w c e ks p = Inr (YMap b)"
    and r: "merge_sources w c e ks (merge_dicts acc0 b) ps = Inr acc"
    by (auto simp add: merge_source_def split: sum.splits yaml.splits)
  from Cons.IH [OF r] show ?case
    by (auto simp add: keys_merge_dicts)
qed

lemma merge_sources_keeps_path:
  "merge_sources w c e ks acc0 ps = Inr acc \<Longrightarrow> lookup_path (YMap acc0) p \<noteq> None \<Longrightarrow>
     \<forall>path \<in> set ps. \<forall>d. load_source w c e ks path = Inr d \<longrightarrow> keeps_path p d \<Longrightarrow>
     lookup_path (YMap acc) p \<noteq> None"
proof (induction ps arbitrary: acc0)
  case Nil
  then show ?case by simp
next
  case (Cons q ps)
  from Cons.prems(1) obtain b where b: "load_source w c e ks q = Inr (YMap b)"
    and r: "merge_sources w c e ks (merge_dicts acc0 b) ps = Inr acc"
    by (auto simp add: merge_source_def split: sum.splits yaml.splits)
  from Cons.prems(3) b have "keeps_path p (YMap b)" by simp
  with Cons.prems(2) have "lookup_path (YMap (merge_dicts acc0 b)) p \<noteq> None"
    by (rule lookup_path_merge_dicts)
  with Cons.IH [OF r] Cons.prems(3) show ?case by simp
qed

text \<open>The demonstration world, evaluated.\<close>

lemma demo_load_source [simp]:
  "load_source demo_sys c e ks p = Inr (safe_load demo_sys p)"
  by (simp add: load_source_def interpolate_def demo_sys_def)

lemma demo_safe_load [simp]:
  "safe_load demo_sys ''base.yml'' = YMap base_doc"
  "safe_load demo_sys ''molecule/default/molecule.yml'' = YMap scenario_doc"
  "safe_load demo_sys ''molecule/flat/molecule.yml'' = YMap flat_doc"
  by (simp_all add: demo_sys_def)

lemma demo_base_configs [simp]:
  "filter (path_exists demo_sys) (base_config demo_config) = [''base.yml'']"
  by (simp add: demo_sys_def demo_config_def)

lemma demo_molecule_file [simp]:
  "molecule_file demo_config = ''molecule/default/molecule.yml''"
  by (simp add: demo_config_def)

lemma demo_sources [simp]:
  "sources demo_sys demo_config = [''base.yml'', ''molecule/default/molecule.yml'']"
  by (simp add: sources_def)

lemma demo_combine:
  "combine demo_sys demo_config e ks =
     Inr (merge_dicts (merge_dicts (get_defaults demo_config) base_doc) scenario_doc)"
  by (simp add: combine_sources merge_source_def)

lemma flat_combine:
  "combine demo_sys flat_config e ks = Inr (merge_dicts (get_defaults flat_config) flat_doc)"
  by (simp add: combine_sources sources_def merge_source_def flat_config_def)

lemma merge_sources_docs:
  "map (load_source w c e ks) ps = map (\<lambda>d. Inr (YMap d)) docs
     \<Longrightarrow> merge_sources w c e ks acc ps = Inr (foldl merge_dicts acc docs)"
proof (induction ps arbitrary: acc docs)
  case Nil
  then show ?case by simp
next
  case (Cons p ps)
  then obtain d ds where docs: "docs = d # ds" by (cases docs) auto
  with Cons.prems have p: "load_source w c e ks p = Inr (YMap d)"
    and r: "map (load_source w c e ks) ps = map (\<lambda>d. Inr (YMap d)) ds"
    by simp_all
  show ?case
    using Cons.IH [OF r] p by (simp add: docs merge_source_def)
qed

lemma map_of_foldl_merge_absent:
  "\<forall>d \<in> set docs. k \<notin> fst ` set d
     \<Longrightarrow> map_of (foldl merge_dicts acc docs) k = map_of acc k"
proof (induction docs arbitrary: acc)
  case Nil
  then show ?case by simp
next
  case (Cons d ds)
  then have "map_of (rev d) k = None"
    by (simp add: map_of_eq_None_iff)
  then have "map_of (merge_dicts acc d) k = map_of acc k"
    by (simp add: map_of_merge_dicts)
  with Cons show ?case by simp
qed

lemma demo_two_base_sources [simp]:
  "sources demo_sys two_base_config = [''base.yml'', ''extra.yml'']"
  by (simp add: sources_def demo_sys_def two_base_config_def)

lemma demo_safe_load_extra [simp]: "safe_load demo_sys ''extra.yml'' = YMap extra_doc"
  by (simp add: demo_sys_def)

text \<open>
  C2. For every source \<open>p\<close> that \<open>combine\<close> merges, base config or scenario file, and
  every key \<open>k\<close> that \<open>p\<close> holds and no later source holds: the merged mapping is the
  left-to-right merge of all the sources onto the defaults; when \<open>k\<close> is absent from the
  defaults and from every earlier source, it appears unchanged in the merged mapping;
  a sequence or scalar value of \<open>p\<close> replaces whatever the defaults and the earlier
  sources give for \<open>k\<close>, as does any value when they give no mapping; and when they give
  a mapping and \<open>p\<close> holds a mapping, the result is the recursive merge of the two. The
  scenario file is the last source, so this holds for each of its keys. The last two
  parts give the rule of one merge at any depth of the recursion: a key of the later
  mapping is replaced, or merged when both sides hold a mapping, and the other keys are
  kept.
\<close>

theorem later_source_overrides:
  assumes "sources w c = pre @ p # post"
    and "map (load_source w c e ks) pre = map (\<lambda>d. Inr (YMap d)) pre_docs"
    and "load_source w c e ks p = Inr (YMap b)"
    and "map (load_source w c e ks) post = map (\<lambda>d. Inr (YMap d)) post_docs"
    and "distinct (map fst b)"
    and "map_of b k = Some v"
    and "\<forall>d \<in> set post_docs. k \<notin> fst ` set d"
  shows "combine w c e ks
           = Inr (foldl merge_dicts (get_defaults c) (pre_docs @ b # post_docs))
    \<and> (k \<notin> fst ` set (get_defaults c) \<and> (\<forall>d \<in> set pre_docs. k \<notin> fst ` set d)
        \<longrightarrow> map_of (foldl merge_dicts (get_defaults c) (pre_docs @ b # post_docs)) k = Some v)
    \<and> ((\<forall>vm. v \<noteq> YMap vm)
        \<longrightarrow> map_of (foldl merge_dicts (get_defaults c) (pre_docs @ b # post_docs)) k = Some v)
    \<and> ((\<forall>am. map_of (foldl merge_dicts (get_defaults c) pre_docs) k \<noteq> Some (YMap am))
        \<longrightarrow> map_of (foldl merge_dicts (get_defaults c) (pre_docs @ b # post_docs)) k = Some v)
    \<and> (\<forall>am vm. map_of (foldl merge_dicts (get_defaults c) pre_docs) k = Some (YMap am)
                 \<and> v = YMap vm
        \<longrightarrow> map_of (foldl merge_dicts (get_defaults c) (pre_docs @ b # post_docs)) k
              = Some (YMap (merge_dicts am vm)))
    \<and> (\<forall>a d j u. distinct (map fst d) \<and> map_of d j = Some u
        \<longrightarrow> map_of (merge_dicts a d) j
              = Some (case (map_of a j, u) of
                        (Some (YMap am), YMap um) \<Rightarrow> YMap (merge_dicts am um)
                      | _ \<Rightarrow> u))
    \<and> (\<forall>a d j. map_of d j = None \<longrightarrow> map_of (merge_dicts a d) j = map_of a j)"
proof -
  let ?A = "foldl merge_dicts (get_defaults c) pre_docs"
  let ?R = "foldl merge_dicts (get_defaults c) (pre_docs @ b # post_docs)"
  have l: "map (load_source w c e ks) (sources w c)
      = map (\<lambda>d. Inr (YMap d)) (pre_docs @ b # post_docs)"
    using assms(1,2,3,4) by simp
  have 1: "combine w c e ks = Inr ?R"
    unfolding combine_sources using l by (rule merge_sources_docs)
  have r: "map_of ?R k = map_of (merge_dicts ?A b) k"
    using map_of_foldl_merge_absent [OF assms(7), of "merge_dicts ?A b"] by simp
  have m: "map_of (rev b) k = Some v"
    using assms(5,6) by (simp add: map_of_rev_distinct)
  have 2: "map_of ?A k = None"
    if "k \<notin> fst ` set (get_defaults c)" "\<forall>d \<in> set pre_docs. k \<notin> fst ` set d"
    using map_of_foldl_merge_absent [OF that(2), of "get_defaults c"] that(1)
    by (simp add: map_of_eq_None_iff)
  have 3: "map_of ?R k = Some v" if "map_of ?A k = None"
    using that m r by (simp add: map_of_merge_dicts)
  have 4: "map_of ?R k = Some v" if "\<forall>vm. v \<noteq> YMap vm"
    using that m r
    by (cases v) (simp_all add: map_of_merge_dicts split: option.splits yaml.splits)
  have 5: "map_of ?R k = Some v" if "\<forall>am. map_of ?A k \<noteq> Some (YMap am)"
    using that m r by (simp add: map_of_merge_dicts split: option.splits yaml.splits)
  have 6: "map_of ?R k = Some (YMap (merge_dicts am vm))"
    if "map_of ?A k = Some (YMap am)" "v = YMap vm" for am vm
    using that m r by (simp add: map_of_merge_dicts)
  have 7: "map_of (merge_dicts a d) j
      = Some (case (map_of a j, u) of
                (Some (YMap am), YMap um) \<Rightarrow> YMap (merge_dicts am um)
              | _ \<Rightarrow> u)"
    if "distinct (map fst d)" "map_of d j = Some u" for a d j u
    using that by (simp add: map_of_merge_dicts map_of_rev_distinct)
  have 8: "map_of (merge_dicts a d) j = map_of a j" if "map_of d j = None" for a d j
    using that map_of_rev_None_iff [of d j] by (simp add: map_of_merge_dicts)
  from 2 3 have c2: "k \<notin> fst ` set (get_defaults c) \<and> (\<forall>d \<in> set pre_docs. k \<notin> fst ` set d)
        \<longrightarrow> map_of ?R k = Some v"
    by blast
  from 7 have c7: "\<forall>a d j u. distinct (map fst d) \<and> map_of d j = Some u
        \<longrightarrow> map_of (merge_dicts a d) j
              = Some (case (map_of a j, u) of
                        (Some (YMap am), YMap um) \<Rightarrow> YMap (merge_dicts am um)
                      | _ \<Rightarrow> u)"
    by blast
  from 8 have c8: "\<forall>a d j. map_of d j = None \<longrightarrow> map_of (merge_dicts a d) j = map_of a j"
    by blast
  from 6 have c6: "\<forall>am vm. map_of ?A k = Some (YMap am) \<and> v = YMap vm
        \<longrightarrow> map_of ?R k = Some (YMap (merge_dicts am vm))"
    by blast
  from 4 have c4: "(\<forall>vm. v \<noteq> YMap vm) \<longrightarrow> map_of ?R k = Some v" by blast
  from 5 have c5: "(\<forall>am. map_of ?A k \<noteq> Some (YMap am)) \<longrightarrow> map_of ?R k = Some v"
    by blast
  show ?thesis
    by (intro conjI) (fact 1 c2 c4 c5 c6 c7 c8)+
qed

text \<open>
  Two demonstration worlds. With two base configs and no scenario file, the sequence
  \<open>platforms\<close> and the scalar \<open>prerun\<close> of the second base config replace what the
  defaults and the first base config give, and the mapping \<open>provisioner\<close> of the first
  base config is merged with the default one. With a base config and a scenario file,
  \<open>custom\<close> is only in the scenario file, its sequence \<open>platforms\<close> replaces the empty
  default, and its mapping \<open>driver\<close> is merged with the default one.
\<close>

lemma demo_acc_driver:
  "map_of (merge_dicts (get_defaults demo_config) base_doc) ''driver''
     = map_of (get_defaults demo_config) ''driver''"
  by (simp add: map_of_merge_dicts base_doc_def)

theorem later_source_overrides_witness:
  "combine demo_sys two_base_config [] None =
     Inr (merge_dicts (merge_dicts (get_defaults two_base_config) base_doc) extra_doc)
   \<and> map_of (merge_dicts (merge_dicts (get_defaults two_base_config) base_doc) extra_doc)
        ''platforms'' = Some (YSeq [YMap [(''name'', YStr ''x'')]])
   \<and> map_of (merge_dicts (merge_dicts (get_defaults two_base_config) base_doc) extra_doc)
        ''prerun'' = Some (YBool True)
   \<and> lookup_path
        (YMap (merge_dicts (merge_dicts (get_defaults two_base_config) base_doc) extra_doc))
        [''provisioner'', ''log''] = Some (YBool False)
   \<and> lookup_path
        (YMap (merge_dicts (merge_dicts (get_defaults two_base_config) base_doc) extra_doc))
        [''provisioner'', ''name''] = Some (YStr ''ansible'')
   \<and> combine demo_sys demo_config [] None =
       Inr (merge_dicts (merge_dicts (get_defaults demo_config) base_doc) scenario_doc)
   \<and> map_of (merge_dicts (merge_dicts (get_defaults demo_config) base_doc) scenario_doc)
        ''custom'' = Some (YStr ''x'')
   \<and> map_of (merge_dicts (merge_dicts (get_defaults demo_config) base_doc) scenario_doc)
        ''platforms'' = Some (YSeq [YMap [(''name'', YStr ''instance'')]])
   \<and> lookup_path
        (YMap (merge_dicts (merge_dicts (get_defaults demo_config) base_doc) scenario_doc))
        [''driver'', ''name''] = Some (YStr ''docker'')
   \<and> lookup_path
        (YMap (merge_dicts (merge_dicts (get_defaults demo_config) base_doc) scenario_doc))
        [''driver'', ''options'', ''managed''] = Some (YBool True)"
proof -
  have s2: "sources demo_sys two_base_config = [''base.yml''] @ ''extra.yml'' # []"
    and s1: "sources demo_sys two_base_config = [] @ ''base.yml'' # [''extra.yml'']"
    and s3: "sources demo_sys demo_config = [''base.yml''] @ ''molecule/default/molecule.yml'' # []"
    by simp_all
  have lb: "map (load_source demo_sys c [] None) [''base.yml''] = map (\<lambda>d. Inr (YMap d)) [base_doc]"
    and le: "map (load_source demo_sys c [] None) [''extra.yml'']
               = map (\<lambda>d. Inr (YMap d)) [extra_doc]"
    and ln: "map (load_source demo_sys c [] None) [] = map (\<lambda>d. Inr (YMap d)) []"
    and pb: "load_source demo_sys c [] None ''base.yml'' = Inr (YMap base_doc)"
    and pe: "load_source demo_sys c [] None ''extra.yml'' = Inr (YMap extra_doc)"
    and ps: "load_source demo_sys c [] None ''molecule/default/molecule.yml''
               = Inr (YMap scenario_doc)" for c
    by simp_all
  have db: "distinct (map fst base_doc)" and de: "distinct (map fst extra_doc)"
    and ds: "distinct (map fst scenario_doc)"
    by (simp_all add: base_doc_def extra_doc_def scenario_doc_def)
  have e1: "map_of extra_doc ''platforms'' = Some (YSeq [YMap [(''name'', YStr ''x'')]])"
    and e2: "map_of extra_doc ''prerun'' = Some (YBool True)"
    by (simp_all add: extra_doc_def)
  have b1: "map_of base_doc ''provisioner'' = Some (YMap [(''log'', YBool False)])"
    and b2: "\<forall>d \<in> set [extra_doc]. ''provisioner'' \<notin> fst ` set d"
    by (simp_all add: base_doc_def extra_doc_def)
  have k1: "map_of scenario_doc ''custom'' = Some (YStr ''x'')"
    and k2: "map_of scenario_doc ''platforms'' = Some (YSeq [YMap [(''name'', YStr ''instance'')]])"
    and k3: "map_of scenario_doc ''driver'' = Some (YMap [(''name'', YStr ''docker'')])"
    by (simp_all add: scenario_doc_def)
  have no: "\<forall>d \<in> set ([] :: mapping list). k \<notin> fst ` set d" for k by simp
  have g: "map_of (get_defaults demo_config) ''driver'' = Some (YMap
      [(''name'', YStr ''default''),
       (''provider'', YMap [(''name'', YNull)]),
       (''options'', YMap [(''managed'', YBool True)]),
       (''ssh_connection_options'', YSeq []),
       (''safe_files'', YSeq [])])"
    by (simp add: get_defaults_def)
  have A0: "combine demo_sys two_base_config [] None =
          Inr (merge_dicts (merge_dicts (get_defaults two_base_config) base_doc) extra_doc)"
    using later_source_overrides [OF s2 lb pe ln de e1 no, THEN conjunct1] by simp
  have A: "map_of (merge_dicts (merge_dicts (get_defaults two_base_config) base_doc) extra_doc)
        ''platforms'' = Some (YSeq [YMap [(''name'', YStr ''x'')]])"
    using later_source_overrides
      [OF s2 lb pe ln de e1 no, THEN conjunct2, THEN conjunct2, THEN conjunct1]
    by simp
  have B: "map_of (merge_dicts (merge_dicts (get_defaults two_base_config) base_doc) extra_doc)
        ''prerun'' = Some (YBool True)"
    using later_source_overrides
      [OF s2 lb pe ln de e2 no, THEN conjunct2, THEN conjunct2, THEN conjunct1]
    by simp
  have C: "map_of (merge_dicts (merge_dicts (get_defaults two_base_config) base_doc) extra_doc)
        ''provisioner'' = Some (YMap (merge_dicts
          (case map_of (get_defaults two_base_config) ''provisioner'' of Some (YMap m) \<Rightarrow> m)
          [(''log'', YBool False)]))"
    using later_source_overrides
      [OF s1 ln pb le db b1 b2, THEN conjunct2, THEN conjunct2, THEN conjunct2,
       THEN conjunct2, THEN conjunct1]
    by (simp add: get_defaults_def)
  have D0: "combine demo_sys demo_config [] None =
       Inr (merge_dicts (merge_dicts (get_defaults demo_config) base_doc) scenario_doc)"
    using later_source_overrides [OF s3 lb ps ln ds k1 no, THEN conjunct1] by simp
  have D: "map_of (merge_dicts (merge_dicts (get_defaults demo_config) base_doc) scenario_doc)
        ''custom'' = Some (YStr ''x'')"
    using later_source_overrides
      [OF s3 lb ps ln ds k1 no, THEN conjunct2, THEN conjunct2, THEN conjunct1]
    by simp
  have E: "map_of (merge_dicts (merge_dicts (get_defaults demo_config) base_doc) scenario_doc)
        ''platforms'' = Some (YSeq [YMap [(''name'', YStr ''instance'')]])"
    using later_source_overrides
      [OF s3 lb ps ln ds k2 no, THEN conjunct2, THEN conjunct2, THEN conjunct1]
    by simp
  have F: "map_of (merge_dicts (merge_dicts (get_defaults demo_config) base_doc) scenario_doc)
        ''driver'' = Some (YMap (merge_dicts
          [(''name'', YStr ''default''),
           (''provider'', YMap [(''name'', YNull)]),
           (''options'', YMap [(''managed'', YBool True)]),
           (''ssh_connection_options'', YSeq []),
           (''safe_files'', YSeq [])] [(''name'', YStr ''docker'')]))"
    using later_source_overrides
      [OF s3 lb ps ln ds k3 no, THEN conjunct2, THEN conjunct2, THEN conjunct2,
       THEN conjunct2, THEN conjunct1]
    by (simp add: demo_acc_driver g)
  show ?thesis
    using A0 A B C D0 D E F
    by (simp add: get_defaults_def) (simp add: merge_dicts.simps)
qed

text \<open>
  C6, amended. In every mapping that \<open>combine\<close> returns, every top-level key of the
  hardcoded defaults is present; and a nested default key is present whenever every
  source keeps its path, that is, no source puts a sequence or a scalar at one of the
  mapping-valued keys that enclose it.
\<close>

theorem default_keys_survive:
  assumes "combine w c e ks = Inr r"
  shows "fst ` set (get_defaults c) \<subseteq> fst ` set r
    \<and> (lookup_path (YMap (get_defaults c)) p \<noteq> None
        \<and> (\<forall>path \<in> set (sources w c). \<forall>d. load_source w c e ks path = Inr d \<longrightarrow> keeps_path p d)
        \<longrightarrow> lookup_path (YMap r) p \<noteq> None)"
  using assms merge_sources_keeps_keys [of w c e ks "get_defaults c" "sources w c" r]
    merge_sources_keeps_path [of w c e ks "get_defaults c" "sources w c" r p]
  unfolding combine_sources by blast

text \<open>The demonstration world keeps the nested default \<open>driver.options.managed\<close>.\<close>

theorem default_keys_survive_witness:
  "fst ` set (get_defaults demo_config)
     \<subseteq> fst ` set (merge_dicts (merge_dicts (get_defaults demo_config) base_doc) scenario_doc)
   \<and> lookup_path (YMap (merge_dicts (merge_dicts (get_defaults demo_config) base_doc) scenario_doc))
        [''driver'', ''options'', ''managed''] \<noteq> None"
proof -
  have a: "combine demo_sys demo_config [] None =
      Inr (merge_dicts (merge_dicts (get_defaults demo_config) base_doc) scenario_doc)"
    by (rule demo_combine)
  have b: "lookup_path (YMap (get_defaults demo_config)) [''driver'', ''options'', ''managed'']
      \<noteq> None"
    by (simp add: get_defaults_def)
  have c: "\<forall>path \<in> set (sources demo_sys demo_config).
      \<forall>d. load_source demo_sys demo_config [] None path = Inr d
        \<longrightarrow> keeps_path [''driver'', ''options'', ''managed''] d"
    by (simp add: base_doc_def scenario_doc_def)
  show ?thesis
    using default_keys_survive [OF a, of "[''driver'', ''options'', ''managed'']"] b c
    by blast
qed

text \<open>
  As written, the statement covers the nested default keys without condition. A scenario
  file that sets \<open>driver\<close> to a scalar replaces the default mapping, and the nested
  default key \<open>driver.name\<close> is no longer in the merged mapping.
\<close>

theorem scalar_override_drops_nested_default:
  "lookup_path (YMap (get_defaults flat_config)) [''driver'', ''name''] = Some (YStr ''default'')
   \<and> combine demo_sys flat_config [] None = Inr (merge_dicts (get_defaults flat_config) flat_doc)
   \<and> lookup_path (YMap (merge_dicts (get_defaults flat_config) flat_doc)) [''driver'', ''name'']
       = None"
  by (simp add: flat_combine) (simp add: get_defaults_def flat_doc_def merge_dicts.simps)

subsection \<open>Interpolation errors\<close>

lemma starts_with_append: "starts_with s (s @ t)"
  by (induction s) simp_all

lemma occurs_in_append: "occurs_in s (a @ s @ b)"
proof (induction a)
  case Nil
  show ?case
  proof (cases "s @ b")
    case Nil
    then show ?thesis by simp
  next
    case (Cons x xs)
    have "starts_with s (s @ b)" by (rule starts_with_append)
    with Cons show ?thesis by simp
  qed
next
  case (Cons x a)
  then show ?case by simp
qed

text \<open>
  C9, amended. When the interpolator raises \<open>InvalidInterpolation\<close> on a source,
  \<open>interpolate\<close> raises \<open>SystemExit\<close>; the message includes the path of the scenario
  file of the configuration object (whichever source was interpolated), the location
  (\<open>place\<close>) and the offending text (\<open>string\<close>). Loading and merging that source raise
  the same exception, and \<open>combine\<close> returns no mapping when the source is one of the
  files it reads.
\<close>

theorem interpolation_error_is_fatal:
  assumes "interpolator w (set_env_from_file w e (env_file c)) stream ks = Inl (place, string)"
  shows "interpolate w c stream e ks =
           Inl (SystemExit (''parsing config file '' @ squote (molecule_file c) @ ''.''
                  @ newline @ newline @ place @ newline @ string))
    \<and> occurs_in (molecule_file c) (interpolation_msg c place string)
    \<and> occurs_in place (interpolation_msg c place string)
    \<and> occurs_in string (interpolation_msg c place string)
    \<and> (read_text w p = Inr stream \<longrightarrow>
          load_source w c e ks p = Inl (SystemExit (interpolation_msg c place string))
          \<and> merge_source w c e ks acc p = Inl (SystemExit (interpolation_msg c place string)))
    \<and> (read_text w p = Inr stream \<and> p \<in> set (sources w c) \<longrightarrow>
          (\<exists>x. combine w c e ks = Inl x))"
proof -
  have 1: "interpolate w c stream e ks = Inl (SystemExit (interpolation_msg c place string))"
    using assms by (simp add: interpolate_def sysexit_with_message_def)
  have 2: "load_source w c e ks p = Inl (SystemExit (interpolation_msg c place string))"
    if "read_text w p = Inr stream"
    using that 1 by (simp add: load_source_def)
  have 3: "\<exists>x. combine w c e ks = Inl x" if "read_text w p = Inr stream" "p \<in> set (sources w c)"
    unfolding combine_sources using merge_sources_failing [OF that(2) 2 [OF that(1)]] .
  have 4: "occurs_in (molecule_file c) (interpolation_msg c place string)"
    using occurs_in_append [of "molecule_file c" "''parsing config file '' @ [CHR 0x27]"
        "[CHR 0x27] @ ''.'' @ newline @ newline @ place @ newline @ string"]
    by (simp add: interpolation_msg_def squote_def)
  have 5: "occurs_in place (interpolation_msg c place string)"
    using occurs_in_append [of place
        "''parsing config file '' @ squote (molecule_file c) @ ''.'' @ newline @ newline"
        "newline @ string"]
    by (simp add: interpolation_msg_def)
  have 6: "occurs_in string (interpolation_msg c place string)"
    using occurs_in_append [of string
        "''parsing config file '' @ squote (molecule_file c) @ ''.'' @ newline @ newline
           @ place @ newline" "[]"]
    by (simp add: interpolation_msg_def)
  show ?thesis using 1 2 3 4 5 6 by (simp add: merge_source_def interpolation_msg_def)
qed

text \<open>A scenario file with an unfinished reference.\<close>

theorem interpolation_error_is_fatal_witness:
  "interpolate strict_sys (cli_config None) broken_text [] (Some ''MOLECULE_'') =
     Inl (SystemExit (''parsing config file '' @ squote ''molecule/default/molecule.yml'' @ ''.''
            @ newline @ newline @ ''line 1, col 9'' @ newline @ broken_text))
   \<and> (\<exists>x. combine strict_sys (cli_config None) [] (Some ''MOLECULE_'') = Inl x)"
proof -
  have a: "interpolator strict_sys (set_env_from_file strict_sys [] (env_file (cli_config None)))
      broken_text (Some ''MOLECULE_'') = Inl (''line 1, col 9'', broken_text)"
    by (simp add: strict_sys_def)
  have b: "read_text strict_sys ''molecule/default/molecule.yml'' = Inr broken_text"
    by (simp add: strict_sys_def)
  have c: "''molecule/default/molecule.yml'' \<in> set (sources strict_sys (cli_config None))"
    by (simp add: sources_def cli_config_def)
  show ?thesis
    using interpolation_error_is_fatal [OF a, of "''molecule/default/molecule.yml''"] b c
    by (simp add: cli_config_def)
qed

text \<open>
  As written, the statement promises the path of the config file for every source. A
  base config whose text the interpolator rejects is reported under the path of the
  scenario file, and its own path is not in the message; with no scenario file set, the
  message quotes the empty path.
\<close>

theorem base_config_error_hides_its_path:
  "''base.yml'' \<in> set (sources strict_sys demo_config)
   \<and> load_source strict_sys demo_config [] None ''base.yml''
       = Inl (SystemExit (''parsing config file '' @ squote ''molecule/default/molecule.yml''
                @ ''.'' @ newline @ newline @ ''line 1, col 9'' @ newline @ broken_text))
   \<and> \<not> occurs_in ''base.yml''
         (''parsing config file '' @ squote ''molecule/default/molecule.yml''
            @ ''.'' @ newline @ newline @ ''line 1, col 9'' @ newline @ broken_text)
   \<and> ''base.yml'' \<in> set (sources strict_sys two_base_config)
   \<and> load_source strict_sys two_base_config [] None ''base.yml''
       = Inl (SystemExit (''parsing config file '' @ squote [] @ ''.'' @ newline @ newline
                @ ''line 1, col 9'' @ newline @ broken_text))
   \<and> \<not> occurs_in ''base.yml''
         (''parsing config file '' @ squote [] @ ''.'' @ newline @ newline
            @ ''line 1, col 9'' @ newline @ broken_text)"
  by (simp add: sources_def load_source_def interpolate_def interpolation_msg_def
      sysexit_with_message_def set_env_from_file_def strict_sys_def demo_config_def
      two_base_config_def broken_text_def squote_def newline_def)

subsection \<open>The state property\<close>

text \<open>
  C8. With a scenario file that exists on disk, whose modification time is \<open>t\<close>: when the
  stored state has no recorded time, \<open>t\<close> is written to the state file and nothing is
  logged; when it has a different recorded time, one warning is logged and the state file
  is unchanged; when the times agree nothing happens. In all cases the property
  constructs two objects and returns the second one, which holds what the state file
  holds afterwards; the first object is the one checked.
\<close>

theorem state_property_checks_and_rebuilds:
  assumes "molecule_file c \<noteq> []" and "getmtime w (molecule_file c) = Some t"
  shows "(molecule_yml_date_modified (stored_state w) = None \<longrightarrow>
            state_file_data (snd (state_property c w))
              = Some ((stored_state w)\<lparr>molecule_yml_date_modified := Some t\<rparr>)
            \<and> objects (snd (state_property c w)) ! length (objects w)
              = (stored_state w)\<lparr>molecule_yml_date_modified := Some t\<rparr>
            \<and> logged (snd (state_property c w)) = logged w)
    \<and> (molecule_yml_date_modified (stored_state w) = Some t0 \<and> t0 \<noteq> t \<longrightarrow>
            logged (snd (state_property c w))
              = logged w @ [LogWarning (stale_msg (molecule_file c))]
            \<and> state_file_data (snd (state_property c w)) = state_file_data w)
    \<and> (molecule_yml_date_modified (stored_state w) = Some t \<longrightarrow>
            logged (snd (state_property c w)) = logged w
            \<and> state_file_data (snd (state_property c w)) = state_file_data w)
    \<and> fst (state_property c w) = Suc (length (objects w))
    \<and> length (objects (snd (state_property c w))) = length (objects w) + 2
    \<and> objects (snd (state_property c w)) ! fst (state_property c w)
        = stored_state (snd (state_property c w))"
  using assms
  by (auto simp add: state_property_def State_new_def stored_state_def
      change_state_date_modified_def Let_def nth_append split: option.splits)

text \<open>The first run records the time 200; a state file that records 100 gives the warning.\<close>

theorem state_property_checks_and_rebuilds_witness:
  "state_file_data (snd (state_property (cli_config None) first_run_world))
     = Some (default_state\<lparr>molecule_yml_date_modified := Some 200\<rparr>)
   \<and> fst (state_property (cli_config None) first_run_world) = 1
   \<and> logged (snd (state_property (cli_config None) stale_world))
       = [LogWarning (stale_msg ''molecule/default/molecule.yml'')]
   \<and> fst (state_property (cli_config None) stale_world) = 1"
proof -
  have a: "molecule_file (cli_config None) \<noteq> []" by (simp add: cli_config_def)
  have b: "getmtime first_run_world (molecule_file (cli_config None)) = Some 200"
    by (simp add: first_run_world_def cli_config_def)
  have c: "getmtime stale_world (molecule_file (cli_config None)) = Some 200"
    by (simp add: stale_world_def cli_config_def)
  have s1: "stored_state first_run_world = default_state"
    by (simp add: stored_state_def first_run_world_def)
  have s2: "molecule_yml_date_modified (stored_state stale_world) = Some 100 \<and> (100::nat) \<noteq> 200"
    by (simp add: stored_state_def stale_world_def)
  have o: "objects first_run_world = []" "objects stale_world = []" "logged stale_world = []"
    "molecule_file (cli_config None) = ''molecule/default/molecule.yml''"
    by (simp_all add: first_run_world_def stale_world_def cli_config_def)
  have d: "molecule_yml_date_modified (default_state :: nat state_data) = None"
    by (simp add: default_state_def)
  show ?thesis
    using state_property_checks_and_rebuilds [OF a b, of 100]
      state_property_checks_and_rebuilds [OF a c, of 100] s2
    by (simp add: s1 o d)
qed

subsection \<open>The plugin collection\<close>

lemma appended_snoc:
  "appended (items @ [item]) = snd (ulm_append (appended items) item)"
  by (simp add: appended_def)

lemma map_of_ulm_append:
  assumes "map_of u ''data'' = Some (ListVal xs)" and "pstr item \<noteq> ''data''"
    and "map_of u ''append'' = None"
  shows "fst (ulm_append u item) = None"
    and "map_of (snd (ulm_append u item)) =
           (map_of u)(pstr item \<mapsto> PluginVal item, ''data'' \<mapsto> ListVal (xs @ [item]))"
  using assms by (simp_all add: ulm_append_def shadowed_def Let_def AList.update_conv')

text \<open>
  As long as no item is named \<open>data\<close> or \<open>append\<close>, every call of \<open>append\<close> runs its
  body: the key \<open>data\<close> holds the list of the items, and a name that no item bears is
  not a key of the instance dictionary.
\<close>

lemma appended_keys:
  assumes "''data'' \<notin> set (map pstr items)" and "''append'' \<notin> set (map pstr items)"
  shows "map_of (appended items) ''data'' = Some (ListVal items)
    \<and> (\<forall>k. k \<noteq> ''data'' \<and> k \<notin> set (map pstr items) \<longrightarrow> map_of (appended items) k = None)"
  using assms
proof (induction items rule: rev_induct)
  case Nil
  then show ?case by (simp add: appended_def UserListMap_new_def)
next
  case (snoc x xs)
  then have d: "map_of (appended xs) ''data'' = Some (ListVal xs)"
    and o: "\<forall>k. k \<noteq> ''data'' \<and> k \<notin> set (map pstr xs) \<longrightarrow> map_of (appended xs) k = None"
    and n: "pstr x \<noteq> ''data''" and a: "''append'' \<notin> set (map pstr xs)"
    by auto
  from o a have s: "map_of (appended xs) ''append'' = None" by simp
  show ?case
    using o by (simp add: appended_snoc map_of_ulm_append(2) [OF d n s])
qed

lemma appended_data:
  "''data'' \<notin> set (map pstr items) \<Longrightarrow> ''append'' \<notin> set (map pstr items)
     \<Longrightarrow> map_of (appended items) ''data'' = Some (ListVal items)"
  by (simp add: appended_keys)

lemma appended_other:
  "''data'' \<notin> set (map pstr items) \<Longrightarrow> ''append'' \<notin> set (map pstr items)
     \<Longrightarrow> k \<noteq> ''data'' \<Longrightarrow> k \<notin> set (map pstr items)
     \<Longrightarrow> map_of (appended items) k = None"
  by (simp add: appended_keys)

lemma ulm_append_appended:
  assumes "''data'' \<notin> set (map pstr (items @ [item]))"
    and "''append'' \<notin> set (map pstr items)"
  shows "ulm_append (appended items) item = (None, appended (items @ [item]))"
proof -
  from assms have d: "map_of (appended items) ''data'' = Some (ListVal items)"
    and n: "pstr item \<noteq> ''data''"
    by (auto intro: appended_data)
  have s: "map_of (appended items) ''append'' = None"
    using assms by (auto intro: appended_other)
  show ?thesis
    using map_of_ulm_append(1) [OF d n s] by (simp add: appended_snoc prod_eq_iff)
qed

text \<open>
  C10, amended. In a collection built by appends of items none of which is named
  \<open>data\<close>, \<open>append\<close> or \<open>get\<close>: \<open>append\<close> raises nothing, and afterwards the item is
  retrieved by its position (the last one), by indexing with its name and by \<open>get\<close>
  with its name; \<open>get\<close> with a name other than \<open>data\<close> that no appended item bears
  returns the supplied default; indexing or \<open>get\<close> with the key \<open>data\<close> returns the
  backing list. Nothing is said about a collection to which an item of one of the three
  names has been appended.
\<close>

theorem append_then_retrieve:
  assumes "''data'' \<notin> set (map pstr (items @ [item]))"
    and "''append'' \<notin> set (map pstr (items @ [item]))"
    and "''get'' \<notin> set (map pstr (items @ [item]))"
  shows "ulm_append (appended items) item = (None, appended (items @ [item]))
    \<and> getitem (appended (items @ [item])) (Idx (int (length items))) = Inr (PluginVal item)
    \<and> getitem (appended (items @ [item])) (Idx (- 1)) = Inr (PluginVal item)
    \<and> getitem (appended (items @ [item])) (Name (pstr item)) = Inr (PluginVal item)
    \<and> get (appended (items @ [item])) (pstr item) dflt = Inr (PluginVal item)
    \<and> (k \<noteq> ''data'' \<and> k \<notin> set (map pstr (items @ [item]))
         \<longrightarrow> get (appended (items @ [item])) k dflt = Inr dflt)
    \<and> getitem (appended (items @ [item])) (Name ''data'') = Inr (ListVal (items @ [item]))
    \<and> get (appended (items @ [item])) ''data'' dflt = Inr (ListVal (items @ [item]))"
proof -
  from assms have a0: "''append'' \<notin> set (map pstr items)" by simp
  from assms a0 have d: "map_of (appended items) ''data'' = Some (ListVal items)"
    and n: "pstr item \<noteq> ''data''"
    by (auto intro: appended_data)
  have s: "map_of (appended items) ''append'' = None"
    using assms a0 by (auto intro: appended_other)
  have m: "map_of (appended (items @ [item])) =
      (map_of (appended items))(pstr item \<mapsto> PluginVal item, ''data'' \<mapsto> ListVal (items @ [item]))"
    by (simp add: appended_snoc map_of_ulm_append(2) [OF d n s])
  have g: "\<not> shadowed (appended (items @ [item])) ''get''"
    using appended_other [OF assms(1) assms(2), of "''get''"] assms(3)
    by (simp add: shadowed_def)
  have 1: "ulm_append (appended items) item = (None, appended (items @ [item]))"
    using assms(1) a0 by (rule ulm_append_appended)
  have 2: "k \<noteq> ''data'' \<and> k \<notin> set (map pstr (items @ [item]))
         \<longrightarrow> get (appended (items @ [item])) k dflt = Inr dflt"
    using appended_other [OF assms(1) assms(2), of k] g by (simp add: get_def)
  show ?thesis
    using n 1 2 g by (simp add: m get_def)
qed

text \<open>The plugins \<open>default\<close> and \<open>docker\<close>, appended in this order.\<close>

theorem append_then_retrieve_witness:
  "getitem (appended [default_plugin, docker_plugin]) (Idx 1) = Inr (PluginVal docker_plugin)
   \<and> getitem (appended [default_plugin, docker_plugin]) (Name ''docker'')
       = Inr (PluginVal docker_plugin)
   \<and> get (appended [default_plugin, docker_plugin]) ''docker'' NoneVal
       = Inr (PluginVal docker_plugin)
   \<and> get (appended [default_plugin, docker_plugin]) ''podman'' NoneVal = Inr NoneVal
   \<and> get (appended [default_plugin, docker_plugin]) ''data'' NoneVal
       = Inr (ListVal [default_plugin, docker_plugin])"
proof -
  have a: "''data'' \<notin> set (map pstr ([default_plugin] @ [docker_plugin]))"
    "''append'' \<notin> set (map pstr ([default_plugin] @ [docker_plugin]))"
    "''get'' \<notin> set (map pstr ([default_plugin] @ [docker_plugin]))"
    by (simp_all add: default_plugin_def docker_plugin_def)
  have b: "pstr docker_plugin = ''docker''" by (simp add: docker_plugin_def)
  have c: "''podman'' \<noteq> ''data'' \<and> ''podman'' \<notin> set (map pstr ([default_plugin] @ [docker_plugin]))"
    by (simp add: default_plugin_def docker_plugin_def)
  show ?thesis
    using append_then_retrieve [OF a, of NoneVal "''podman''"] b c by simp
qed

text \<open>
  As written, the statement says that the key \<open>data\<close> gives the backing list and never
  an item, and that every other item is retrieved by \<open>get\<close> with its name. Appending an
  item named \<open>data\<close> to a new collection stores the item under the key that holds the
  backing list: the call raises \<open>AttributeError\<close>, the key \<open>data\<close> then gives the item,
  and the item is not retrieved by position. After an item named \<open>get\<close> is appended,
  \<open>get\<close> with its name raises \<open>TypeError\<close>; after an item named \<open>append\<close>, the next
  \<open>append\<close> raises \<open>TypeError\<close> and stores nothing.
\<close>

theorem attribute_named_items_break_access:
  "ulm_append UserListMap_new data_plugin
      = (Some (AttributeError ''append''), [(''data'', PluginVal data_plugin)])
   \<and> get (snd (ulm_append UserListMap_new data_plugin)) ''data'' NoneVal
       = Inr (PluginVal data_plugin)
   \<and> getitem (snd (ulm_append UserListMap_new data_plugin)) (Name ''data'')
       = Inr (PluginVal data_plugin)
   \<and> getitem (snd (ulm_append UserListMap_new data_plugin)) (Idx 0)
       = Inl (TypeError ''not subscriptable'')
   \<and> fst (ulm_append UserListMap_new get_plugin) = None
   \<and> get (snd (ulm_append UserListMap_new get_plugin)) ''get'' NoneVal
       = Inl (TypeError ''not callable'')
   \<and> fst (ulm_append UserListMap_new append_plugin) = None
   \<and> ulm_append (snd (ulm_append UserListMap_new append_plugin)) docker_plugin
       = (Some (TypeError ''not callable''), snd (ulm_append UserListMap_new append_plugin))
   \<and> getitem (snd (ulm_append UserListMap_new append_plugin)) (Name ''docker'')
       = Inl (KeyError ''docker'')"
  by (simp add: ulm_append_def shadowed_def UserListMap_new_def data_plugin_def get_plugin_def
      append_plugin_def docker_plugin_def get_def)

subsection \<open>The plugin registries\<close>

lemma drivers_caught_all [simp]: "drivers_caught e"
  by (simp add: drivers_caught_def is_Exception_def)

lemma constructed_Cons:
  "constructed cfg (p # ps) =
     (case call p cfg of Inr item \<Rightarrow> item # constructed cfg ps | Inl e \<Rightarrow> constructed cfg ps)"
  by (simp add: constructed_def split: sum.splits)

lemma failures_Cons:
  "failures cfg (p # ps) =
     (case call p cfg of
        Inl e \<Rightarrow> LogError (load_failure_msg (fname p) e) # failures cfg ps
      | Inr item \<Rightarrow> failures cfg ps)"
  by (simp add: failures_def split: sum.splits)

text \<open>
  When the \<^verbatim>\<open>except\<close> clause catches whatever the classes raise and no constructed
  plugin is named \<open>data\<close> or \<open>append\<close>, the loop appends every constructed plugin and logs
  one record for every class that raises.
\<close>

lemma load_plugins_isolates:
  assumes "\<forall>p \<in> set ps. \<forall>e. call p cfg = Inl e \<longrightarrow> caught e"
    and "''data'' \<notin> set (map pstr (items @ constructed cfg ps))"
    and "''append'' \<notin> set (map pstr (items @ constructed cfg ps))"
  shows "load_plugins caught cfg ps (appended items) lg =
           Inr (appended (items @ constructed cfg ps), lg @ failures cfg ps)"
  using assms
proof (induction ps arbitrary: items lg)
  case Nil
  then show ?case by (simp add: constructed_def failures_def)
next
  case (Cons p ps)
  from Cons.prems have r: "\<forall>p \<in> set ps. \<forall>e. call p cfg = Inl e \<longrightarrow> caught e" by simp
  show ?case
  proof (cases "call p cfg")
    case (Inl e)
    with Cons.prems have c: "caught e" by simp
    from Cons.prems Inl have d: "''data'' \<notin> set (map pstr (items @ constructed cfg ps))"
      and a: "''append'' \<notin> set (map pstr (items @ constructed cfg ps))"
      by (simp_all add: constructed_Cons)
    show ?thesis
      using Cons.IH [OF r d a] Inl c by (simp add: constructed_Cons failures_Cons)
  next
    case (Inr item)
    from Cons.prems Inr have d: "''data'' \<notin> set (map pstr ((items @ [item]) @ constructed cfg ps))"
      and a: "''append'' \<notin> set (map pstr ((items @ [item]) @ constructed cfg ps))"
      by (simp_all add: constructed_Cons)
    then have d1: "''data'' \<notin> set (map pstr (items @ [item]))"
      and a1: "''append'' \<notin> set (map pstr items)" by simp_all
    have u: "ulm_append (appended items) item = (None, appended (items @ [item]))"
      using d1 a1 by (rule ulm_append_appended)
    show ?thesis
      using Cons.IH [OF r d a] Inr u by (simp add: constructed_Cons failures_Cons)
  qed
qed

text \<open>
  \<open>drivers\<close> isolates every failure of a plugin class: it returns the sorted collection
  of the plugins constructed and one log record for each class that raised, whether
  \<open>Exception\<close> or \<open>SystemExit\<close>, as long as no constructed plugin bears the name of an
  attribute that the function uses (\<open>data\<close>, \<open>append\<close>, \<open>sort\<close>).
\<close>

lemma drivers_isolates_failures:
  assumes "''data'' \<notin> set (map pstr (constructed cfg (get_plugins pm)))"
    and "''append'' \<notin> set (map pstr (constructed cfg (get_plugins pm)))"
    and "''sort'' \<notin> set (map pstr (constructed cfg (get_plugins pm)))"
  shows "\<exists>u lg. drivers cfg pm = Inr (u, lg)
      \<and> map_of u ''data'' = Some (ListVal (sort_key pstr (constructed cfg (get_plugins pm))))
      \<and> lg = (case entrypoint_failure pm of None \<Rightarrow> []
               | Some (e, tb) \<Rightarrow> [LogError (''Failed to load driver entry point '' @ tb)])
             @ failures cfg (get_plugins pm)"
proof -
  have n: "appended [] = UserListMap_new" by (simp add: appended_def)
  have l: "load_plugins drivers_caught cfg (get_plugins pm) UserListMap_new lg =
      Inr (appended (constructed cfg (get_plugins pm)), lg @ failures cfg (get_plugins pm))" for lg
    using load_plugins_isolates [of "get_plugins pm" cfg drivers_caught "[]" lg] assms
    by (simp add: n)
  have d: "map_of (appended (constructed cfg (get_plugins pm))) ''data'' =
      Some (ListVal (constructed cfg (get_plugins pm)))"
    using assms(1,2) by (rule appended_data)
  have s: "\<not> shadowed (appended (constructed cfg (get_plugins pm))) ''sort''"
    using appended_other [OF assms(1,2), of "''sort''"] assms(3) by (simp add: shadowed_def)
  show ?thesis
    by (simp add: drivers_def l ulm_sort_def d s AList.update_conv'
        split: option.splits prod.splits)
qed

text \<open>
  \<open>verifiers\<close> does the same for a class that raises an \<open>Exception\<close>, and \<open>drivers\<close>
  for a class that raises \<open>SystemExit\<close>.
\<close>

lemma verifiers_exception_isolated:
  "verifiers () \<lparr>entrypoint_failure = None, get_plugins = [good_factory, raising_factory]\<rparr>
     = Inr ([(''data'', ListVal [\<lparr>pstr = ''ansible'', ident = 0\<rparr>]),
             (''ansible'', PluginVal \<lparr>pstr = ''ansible'', ident = 0\<rparr>)],
            [LogError ''Failed to load broken driver: boom''])"
  by (simp add: verifiers_def verifiers_caught_def is_Exception_def good_factory_def
      raising_factory_def ulm_append_def shadowed_def UserListMap_new_def ulm_sort_def
      load_failure_msg_def)

lemma drivers_system_exit_isolated:
  "drivers () \<lparr>entrypoint_failure = None, get_plugins = [good_factory, exiting_factory]\<rparr>
     = Inr ([(''data'', ListVal [\<lparr>pstr = ''ansible'', ident = 0\<rparr>]),
             (''ansible'', PluginVal \<lparr>pstr = ''ansible'', ident = 0\<rparr>)],
            [LogError ''Failed to load testinfra driver: 1''])"
  by (simp add: drivers_def good_factory_def exiting_factory_def ulm_append_def shadowed_def
      UserListMap_new_def ulm_sort_def load_failure_msg_def)

text \<open>
  The conditions on the names are needed: a driver plugin named \<open>data\<close> replaces the
  backing list, one named \<open>sort\<close> shadows the method, and in both cases the final
  \<^verbatim>\<open>plugins.sort()\<close> raises outside of any \<^verbatim>\<open>try\<close>.
\<close>

lemma drivers_data_plugin_aborts:
  "drivers () \<lparr>entrypoint_failure = None, get_plugins = [good_factory, data_factory]\<rparr>
     = Inl (AttributeError ''sort'')"
  by (simp add: drivers_def good_factory_def data_factory_def data_plugin_def ulm_append_def
      shadowed_def UserListMap_new_def ulm_sort_def)

lemma drivers_sort_plugin_aborts:
  "drivers () \<lparr>entrypoint_failure = None, get_plugins = [good_factory, sort_factory]\<rparr>
     = Inl (TypeError ''not callable'')"
  by (simp add: drivers_def good_factory_def sort_factory_def ulm_append_def
      shadowed_def UserListMap_new_def ulm_sort_def)

text \<open>
  C7. The statement asks that the failure of one plugin class never aborts the
  construction of a registry. With a verifier class whose call raises \<open>SystemExit\<close>,
  \<open>verifiers\<close> does not return a collection: its \<^verbatim>\<open>except\<close> clause names
  \<open>Exception\<close> only, and the exception leaves the function.
\<close>

theorem verifiers_system_exit_aborts:
  "verifiers () \<lparr>entrypoint_failure = None, get_plugins = [good_factory, exiting_factory]\<rparr>
     = Inl (SystemExit ''1'')"
  by (simp add: verifiers_def verifiers_caught_def is_Exception_def good_factory_def
      exiting_factory_def ulm_append_def shadowed_def UserListMap_new_def)

end
